theory Spec2Isabelle
  imports Main "HOL-Library.Word"
begin

section \<open>The write handler (servicesv2/write/server.go)\<close>

subsection \<open>Data of package servicesv2 the handler uses\<close>

text \<open>
  Modelled from the spec: the types \<^verbatim>\<open>ID\<close>, \<^verbatim>\<open>Organization\<close>, \<^verbatim>\<open>Bucket\<close>,
  \<^verbatim>\<open>DBRPMappingV2\<close> and the three filter structs are declared in package
  \<^verbatim>\<open>servicesv2\<close>, whose files are not among the sources. The records below carry the
  fields the spec's data model lists and server.go reads or sets. A Go pointer field that
  may be nil is an \<open>option\<close>.
\<close>

type_synonym ID = "64 word"

record Organization =
  org_ID :: ID
  org_Name :: string

record Bucket =
  bkt_ID :: ID
  bkt_Name :: string
  bkt_OrganizationID :: ID

record DBRPMappingV2 =
  dbrp_Database :: string
  dbrp_RetentionPolicy :: string
  dbrp_OrganizationID :: ID
  dbrp_BucketID :: ID

record OrganizationFilter =
  of_Name :: "string option"
  of_ID :: "ID option"

record BucketFilter =
  bf_ID :: "ID option"
  bf_Name :: "string option"
  bf_OrganizationID :: "ID option"

record DBRPMappingFilterV2 =
  df_Database :: "string option"
  df_RetentionPolicy :: "string option"

subsection \<open>Errors, requests, responses\<close>

text \<open>
  An error of the handler is either built in server.go by \<^verbatim>\<open>fmt.Errorf\<close> (kept as the
  format string and its arguments, so that no formatting has to be modelled) or comes from a
  collaborator (type \<open>'e\<close>).
\<close>

datatype 'e error = Errorf string "string list" | Ext 'e

text \<open>
  Of \<^verbatim>\<open>*http.Request\<close> the handler reads the query values, one header, the content
  length and the body. \<^verbatim>\<open>url.Values\<close> and \<^verbatim>\<open>http.Header\<close> are maps from a key to
  a list of values; \<open>Get\<close> is their method \<^verbatim>\<open>Get\<close>: the first value, or the empty string.
\<close>

record 'r request =
  Query :: "string \<rightharpoonup> string list"
  Header :: "string \<rightharpoonup> string list"
  ContentLength :: int
  Body :: 'r

definition Get :: "(string \<rightharpoonup> string list) \<Rightarrow> string \<Rightarrow> string" where
  "Get v key = (case v key of None \<Rightarrow> [] | Some vs \<Rightarrow> (case vs of [] \<Rightarrow> [] | x # _ \<Rightarrow> x))"

text \<open>
  What the handler leaves on the \<^verbatim>\<open>http.ResponseWriter\<close>: a status written with
  \<^verbatim>\<open>w.WriteHeader\<close>, or an error handed to \<^verbatim>\<open>h.api.Err\<close>.
\<close>

datatype 'e response = WriteHeader nat | ApiErr "'e error"

definition StatusOK :: nat where
  "StatusOK = 200"

definition StatusNoContent :: nat where
  "StatusNoContent = 204"

subsection \<open>Collaborators\<close>

text \<open>
  The handler's collaborators are interfaces and library functions outside the sources;
  they are parameters of the model, collected in one record. A function that returns
  \<^verbatim>\<open>(x, error)\<close> returns a sum (\<open>Inl\<close> the error); \<^verbatim>\<open>ParsePointsWithPrecision\<close>
  returns both its points and its error, as the handler reads both. One run of the handler
  calls each service at most once with any given argument, so a function of the argument
  stands for any behaviour of the service during that run; \<^verbatim>\<open>IDFromString\<close> and the
  accessors of an error are functions of their argument in Go as well.

  The handler's calls to the four services are recorded, in order, in a list of \<open>call\<close>s
  that every function of the model returns beside its result.
\<close>

record ('e, 'p, 'r) env =
  IDFromString :: "string \<Rightarrow> 'e + ID"
  ErrorCode :: "'e \<Rightarrow> string"
  ENotFound :: string
  Error :: "'e \<Rightarrow> string"
  FindOrganization :: "OrganizationFilter \<Rightarrow> 'e + Organization"
  FindOrganizationByID :: "ID \<Rightarrow> 'e + Organization"
  FindBucket :: "BucketFilter \<Rightarrow> 'e + Bucket"
  FindBucketByID :: "ID \<Rightarrow> 'e + Bucket"
  FindMany :: "DBRPMappingFilterV2 \<Rightarrow> 'e + DBRPMappingV2 list"
  WritePoints :: "ID \<Rightarrow> ID \<Rightarrow> 'p list \<Rightarrow> 'e option"
  NewReader :: "'r \<Rightarrow> 'e + 'r"
  ReadFrom :: "'r \<Rightarrow> 'e + 8 word list"
  ParsePointsWithPrecision :: "8 word list \<Rightarrow> int \<Rightarrow> string \<Rightarrow> 'p list \<times> 'e option"
  Now :: int

datatype 'p call =
    CallFindOrganization OrganizationFilter
  | CallFindOrganizationByID ID
  | CallFindBucket BucketFilter
  | CallFindBucketByID ID
  | CallFindMany DBRPMappingFilterV2
  | CallWritePoints ID ID "'p list"

subsection \<open>Precision (handleWrite, lines 78 to 99)\<close>

text \<open>The first \<^verbatim>\<open>switch precision\<close>: rewrites two tokens, keeps three, refuses the rest.\<close>

definition precision_switch1 :: "string \<Rightarrow> 'e error + string" where
  "precision_switch1 precision =
     (if precision = ''ns'' then Inr ''n''
      else if precision = ''us'' then Inr ''u''
      else if precision = ''ms'' \<or> precision = ''s'' \<or> precision = [] then Inr precision
      else Inl (Errorf ''invalid precision %q (use ns, us, ms or s)'' [precision]))"

text \<open>The second \<^verbatim>\<open>switch precision\<close>, on the value the first one left.\<close>

definition precision_switch2 :: "string \<Rightarrow> 'e error + string" where
  "precision_switch2 precision =
     (if precision = [] \<or> precision = ''n'' \<or> precision = ''ns'' \<or> precision = ''u''
         \<or> precision = ''ms'' \<or> precision = ''s'' \<or> precision = ''m'' \<or> precision = ''h''
      then Inr precision
      else Inl (Errorf ''invalid precision %q (use n, u, ms, s, m or h)'' [precision]))"

definition normalize_precision :: "string \<Rightarrow> 'e error + string" where
  "normalize_precision precision =
     (case precision_switch1 precision of
        Inl err \<Rightarrow> Inl err
      | Inr p \<Rightarrow> precision_switch2 p)"

subsection \<open>Tenant resolution\<close>

definition findOrganization ::
  "('e, 'p, 'r) env \<Rightarrow> 'r request \<Rightarrow> ('e error + Organization) \<times> 'p call list" where
  "findOrganization h r =
     (let organization = Get (Query r) ''org'';
          filter0 = \<lparr>of_Name = None, of_ID = None\<rparr>;
          filter1 =
            (if organization \<noteq> [] then
               (case IDFromString h organization of
                  Inr ident \<Rightarrow> filter0\<lparr>of_ID := Some ident\<rparr>
                | Inl err \<Rightarrow> filter0\<lparr>of_Name := Some organization\<rparr>)
             else filter0);
          reqID = Get (Query r) ''org_id''
      in if reqID \<noteq> [] then
           (case IDFromString h reqID of
              Inl err \<Rightarrow> (Inl (Ext err), [])
            | Inr ident \<Rightarrow>
                (let filter2 = filter1\<lparr>of_ID := Some ident\<rparr>
                 in (map_sum Ext id (FindOrganization h filter2), [CallFindOrganization filter2])))
         else (map_sum Ext id (FindOrganization h filter1), [CallFindOrganization filter1]))"

definition findBucket ::
  "('e, 'p, 'r) env \<Rightarrow> 'r request \<Rightarrow> ID \<Rightarrow> ('e error + Bucket) \<times> 'p call list" where
  "findBucket h r orgID =
     (let bucket = Get (Query r) ''bucket'';
          byName = \<lparr>bf_ID = None, bf_Name = Some bucket, bf_OrganizationID = Some orgID\<rparr>
      in case IDFromString h bucket of
           Inr ident \<Rightarrow>
             (let byID = \<lparr>bf_ID = Some ident, bf_Name = None, bf_OrganizationID = Some orgID\<rparr>
              in case FindBucket h byID of
                   Inl err \<Rightarrow>
                     if ErrorCode h err \<noteq> ENotFound h
                     then (Inl (Ext err), [CallFindBucket byID])
                     else (map_sum Ext id (FindBucket h byName),
                           [CallFindBucket byID, CallFindBucket byName])
                 | Inr b \<Rightarrow> (Inr b, [CallFindBucket byID]))
         | Inl err \<Rightarrow> (map_sum Ext id (FindBucket h byName), [CallFindBucket byName]))"

definition findTenantV2 ::
  "('e, 'p, 'r) env \<Rightarrow> 'r request \<Rightarrow>
     ('e error + Organization \<times> Bucket) \<times> 'p call list" where
  "findTenantV2 h r =
     (case findOrganization h r of
        (Inl err, cs) \<Rightarrow> (Inl err, cs)
      | (Inr org, cs) \<Rightarrow>
          (case findBucket h r (org_ID org) of
             (Inl err, cs') \<Rightarrow> (Inl err, cs @ cs')
           | (Inr bucket, cs') \<Rightarrow> (Inr (org, bucket), cs @ cs')))"

definition findTenantV1 ::
  "('e, 'p, 'r) env \<Rightarrow> 'r request \<Rightarrow>
     ('e error + Organization \<times> Bucket) \<times> 'p call list" where
  "findTenantV1 h r =
     (let db = Get (Query r) ''db'';
          rp = Get (Query r) ''rp'';
          flt = \<lparr>df_Database = Some db, df_RetentionPolicy = Some rp\<rparr>
      in case FindMany h flt of
           Inl err \<Rightarrow> (Inl (Ext err), [CallFindMany flt])
         | Inr dbrps \<Rightarrow>
             (case dbrps of
                [m] \<Rightarrow>
                  (case FindOrganizationByID h (dbrp_OrganizationID m) of
                     Inl err \<Rightarrow>
                       (Inl (Ext err),
                        [CallFindMany flt, CallFindOrganizationByID (dbrp_OrganizationID m)])
                   | Inr org \<Rightarrow>
                       (case FindBucketByID h (dbrp_BucketID m) of
                          Inl err \<Rightarrow>
                            (Inl (Ext err),
                             [CallFindMany flt, CallFindOrganizationByID (dbrp_OrganizationID m),
                              CallFindBucketByID (dbrp_BucketID m)])
                        | Inr bucket \<Rightarrow>
                            (Inr (org, bucket),
                             [CallFindMany flt, CallFindOrganizationByID (dbrp_OrganizationID m),
                              CallFindBucketByID (dbrp_BucketID m)])))
              | _ \<Rightarrow>
                  (Inl (Errorf ''failed for find DBRP mapping for db:%q, rp:%q'' [db, rp]),
                   [CallFindMany flt])))"

text \<open>
  Lines 101 to 109 of handleWrite: the current scheme first, the legacy scheme when it
  fails, and the current scheme's error when both fail.
\<close>

definition resolve_tenant ::
  "('e, 'p, 'r) env \<Rightarrow> 'r request \<Rightarrow>
     ('e error + Organization \<times> Bucket) \<times> 'p call list" where
  "resolve_tenant h r =
     (case findTenantV2 h r of
        (Inr t, cs) \<Rightarrow> (Inr t, cs)
      | (Inl err, cs) \<Rightarrow>
          (case findTenantV1 h r of
             (Inl v1err, cs') \<Rightarrow> (Inl err, cs @ cs')
           | (Inr t, cs') \<Rightarrow> (Inr t, cs @ cs')))"

subsection \<open>Decoding the body and the handler\<close>

text \<open>
  \<^verbatim>\<open>parsePoints\<close>: the body is unzipped when the header says so, read whole, and
  parsed. The content length only sizes the buffer's first allocation, which is not
  modelled.
\<close>

definition parsePoints ::
  "('e, 'p, 'r) env \<Rightarrow> 'r request \<Rightarrow> string \<Rightarrow> 'p list \<times> 'e option" where
  "parsePoints h r precision =
     (case (if Get (Header r) ''Content-Encoding'' = ''gzip'' then NewReader h (Body r)
            else Inr (Body r)) of
        Inl err \<Rightarrow> ([], Some err)
      | Inr body \<Rightarrow>
          (case ReadFrom h body of
             Inl err \<Rightarrow> ([], Some err)
           | Inr bs \<Rightarrow> ParsePointsWithPrecision h bs (Now h) precision))"

definition handleWrite ::
  "('e, 'p, 'r) env \<Rightarrow> 'r request \<Rightarrow> 'e response \<times> 'p call list" where
  "handleWrite h r =
     (case normalize_precision (Get (Query r) ''precision'') of
        Inl err \<Rightarrow> (ApiErr err, [])
      | Inr precision \<Rightarrow>
          (case resolve_tenant h r of
             (Inl err, cs) \<Rightarrow> (ApiErr err, cs)
           | (Inr (org, bucket), cs) \<Rightarrow>
               (case parsePoints h r precision of
                  (points, Some err) \<Rightarrow>
                    if Error h err = ''EOF'' \<and> length points = 0
                    then (WriteHeader StatusOK, cs)
                    else (ApiErr (Ext err), cs)
                | (points, None) \<Rightarrow>
                    (case WritePoints h (org_ID org) (bkt_ID bucket) points of
                       Some err \<Rightarrow>
                         (ApiErr (Ext err),
                          cs @ [CallWritePoints (org_ID org) (bkt_ID bucket) points])
                     | None \<Rightarrow>
                         (WriteHeader StatusNoContent,
                          cs @ [CallWritePoints (org_ID org) (bkt_ID bucket) points])))))"

section \<open>The typed arrays (pkg/data/gen/arrays.gen.go.tmpl)\<close>

subsection \<open>Slices over a store of backing arrays\<close>

text \<open>
  \<^verbatim>\<open>Copy\<close> writes into the destination's backing arrays, so slices are modelled as Go
  has them: a slice is a window (offset, length, capacity) on a backing array, and the
  arrays live in a store, named by numbers; \<open>nxt\<close> is the first number not yet given out.
  Two slices may name the same array. A nil slice is a window of capacity 0.

  The template is instantiated once per element type. Neither \<^verbatim>\<open>Copy\<close> nor the
  constructor looks inside an element, so the store holds cells of one type \<open>'a\<close>, for
  timestamps and values alike: in the integer variant both are \<^verbatim>\<open>int64\<close>, and the two
  fields may then share an array; in the other variants Go's typing keeps their arrays
  apart, which is a special case.
\<close>

record slice =
  s_arr :: nat
  s_off :: nat
  s_len :: nat
  s_cap :: nat

record 'a store =
  cell :: "nat \<Rightarrow> nat \<Rightarrow> 'a"
  nxt :: nat

text \<open>The elements a slice shows: \<^verbatim>\<open>s[0], ..., s[len(s)-1]\<close>.\<close>

definition rd :: "'a store \<Rightarrow> slice \<Rightarrow> 'a list" where
  "rd st s = map (\<lambda>i. cell st (s_arr s) (s_off s + i)) [0..<s_len s]"

text \<open>\<^verbatim>\<open>s[:0]\<close>: the same window with length 0; the capacity stays.\<close>

definition reslice0 :: "slice \<Rightarrow> slice" where
  "reslice0 s = s\<lparr>s_len := 0\<rparr>"

text \<open>
  What the Go runtime decides is a parameter: the capacity \<^verbatim>\<open>append\<close> asks for when it
  has to move (never less than what is needed), and the zero values of the two element
  types.
\<close>

record 'a runtime =
  growcap :: "nat \<Rightarrow> nat \<Rightarrow> nat"
  zero_ts :: 'a
  zero_val :: 'a

datatype panic = MakesliceLenOutOfRange

text \<open>\<^verbatim>\<open>make([]T, sz)\<close>: a fresh array of \<open>sz\<close> zero values; it panics on a negative size.\<close>

definition make_go :: "'a \<Rightarrow> int \<Rightarrow> 'a store \<Rightarrow> panic + slice \<times> 'a store" where
  "make_go z sz st =
     (if sz < 0 then Inl MakesliceLenOutOfRange
      else Inr (\<lparr>s_arr = nxt st, s_off = 0, s_len = nat sz, s_cap = nat sz\<rparr>,
                st\<lparr>cell := (cell st)(nxt st := (\<lambda>i. z)), nxt := nxt st + 1\<rparr>))"

text \<open>
  \<^verbatim>\<open>append(s, xs...)\<close>, with \<open>xs\<close> already read from the store (Go copies as
  \<^verbatim>\<open>memmove\<close> does, so an overlap of \<open>xs\<close> with the target does not change what is
  copied). When the capacity suffices the elements are written behind \<open>s\<close> in its own
  array; otherwise a fresh array takes the elements of \<open>s\<close>, then \<open>xs\<close>, then zeros.
\<close>

definition append_go ::
  "(nat \<Rightarrow> nat \<Rightarrow> nat) \<Rightarrow> 'a \<Rightarrow> slice \<Rightarrow> 'a list \<Rightarrow> 'a store \<Rightarrow> slice \<times> 'a store" where
  "append_go grow z s xs st =
     (let n = s_len s + length xs in
      if n \<le> s_cap s then
        (s\<lparr>s_len := n\<rparr>,
         st\<lparr>cell := (cell st)(s_arr s :=
            (\<lambda>i. if s_off s + s_len s \<le> i \<and> i < s_off s + n
                 then xs ! (i - (s_off s + s_len s))
                 else cell st (s_arr s) i))\<rparr>)
      else
        (\<lparr>s_arr = nxt st, s_off = 0, s_len = n, s_cap = max n (grow (s_cap s) n)\<rparr>,
         st\<lparr>cell := (cell st)(nxt st :=
            (\<lambda>i. if i < s_len s then cell st (s_arr s) (s_off s + i)
                 else if i < n then xs ! (i - s_len s)
                 else z)),
            nxt := nxt st + 1\<rparr>))"

subsection \<open>The generated type and its three functions\<close>

text \<open>
  Modelled from the spec: \<^verbatim>\<open>cursors.{{.Name}}Array\<close> is declared in package
  \<^verbatim>\<open>tsdb/cursors\<close>, not among the sources; it is the struct of the two slices the
  template reads and the spec's TypedArray lists.
\<close>

record Array =
  Timestamps :: slice
  Values :: slice

definition newArrayLen :: "'a runtime \<Rightarrow> int \<Rightarrow> 'a store \<Rightarrow> panic + Array \<times> 'a store" where
  "newArrayLen rt sz st =
     (case make_go (zero_ts rt) sz st of
        Inl p \<Rightarrow> Inl p
      | Inr (ts, st1) \<Rightarrow>
          (case make_go (zero_val rt) sz st1 of
             Inl p \<Rightarrow> Inl p
           | Inr (vs, st2) \<Rightarrow> Inr (\<lparr>Timestamps = ts, Values = vs\<rparr>, st2)))"

text \<open>
  \<^verbatim>\<open>Encode\<close> hands the array and the buffer to the block encoder of package
  \<^verbatim>\<open>tsm1\<close>, a parameter here, and returns what it returns. The encoder reads the array
  through the store; \<^verbatim>\<open>Encode\<close> itself writes nothing.
\<close>

definition Encode ::
  "(Array \<Rightarrow> 'a store \<Rightarrow> 8 word list \<Rightarrow> 'e + 8 word list) \<Rightarrow>
     Array \<Rightarrow> 8 word list \<Rightarrow> 'a store \<Rightarrow> 'e + 8 word list" where
  "Encode enc a b st = enc a st b"

text \<open>
  \<^verbatim>\<open>Copy\<close>: two statements, each truncating a field of the destination and appending
  the source's field to it. The second statement reads the source's values from the store
  the first one left. The result is the destination struct and the store; the source struct
  is not assigned to. (Were the destination the source's own struct, the assignments would
  give its fields the values returned here.)
\<close>

definition Copy :: "'a runtime \<Rightarrow> Array \<Rightarrow> Array \<Rightarrow> 'a store \<Rightarrow> Array \<times> 'a store" where
  "Copy rt a dst st =
     (case append_go (growcap rt) (zero_ts rt) (reslice0 (Timestamps dst))
             (rd st (Timestamps a)) st of
        (ts, st1) \<Rightarrow>
          (case append_go (growcap rt) (zero_val rt) (reslice0 (Values dst))
                  (rd st1 (Values a)) st1 of
             (vs, st2) \<Rightarrow> (dst\<lparr>Timestamps := ts, Values := vs\<rparr>, st2)))"

text \<open>Three copies into one destination, each into what the one before left.\<close>

definition copy_thrice ::
  "'a runtime \<Rightarrow> Array \<Rightarrow> Array \<Rightarrow> Array \<Rightarrow> Array \<Rightarrow> 'a store \<Rightarrow> Array \<times> 'a store" where
  "copy_thrice rt a1 a2 a3 dst st =
     (case Copy rt a1 dst st of
        (d1, st1) \<Rightarrow> (case Copy rt a2 d1 st1 of (d2, st2) \<Rightarrow> Copy rt a3 d2 st2))"

subsection \<open>Separation\<close>

text \<open>
  Cells \<open>p, ..., p + n - 1\<close> of array \<open>a\<close> and cells \<open>q, ..., q + m - 1\<close> of array \<open>b\<close>
  have nothing in common.
\<close>

definition disjoint :: "nat \<Rightarrow> nat \<Rightarrow> nat \<Rightarrow> nat \<Rightarrow> nat \<Rightarrow> nat \<Rightarrow> bool" where
  "disjoint a p n b q m = (n = 0 \<or> m = 0 \<or> a \<noteq> b \<or> p + n \<le> q \<or> q + m \<le> p)"

text \<open>
  Slice \<open>s\<close> is allocated, and no cell it shows lies within the capacity of slice \<open>d\<close>
  (where an append to \<open>d[:0]\<close> may write).
\<close>

definition apart :: "'a store \<Rightarrow> slice \<Rightarrow> slice \<Rightarrow> bool" where
  "apart st d s =
     (s_arr s < nxt st \<and> disjoint (s_arr d) (s_off d) (s_cap d) (s_arr s) (s_off s) (s_len s))"

definition separate :: "'a store \<Rightarrow> Array \<Rightarrow> slice \<Rightarrow> bool" where
  "separate st dst s = (apart st (Timestamps dst) s \<and> apart st (Values dst) s)"

text \<open>The destination's two fields are allocated and their capacities do not overlap.\<close>

definition owned :: "'a store \<Rightarrow> Array \<Rightarrow> bool" where
  "owned st dst =
     (s_arr (Timestamps dst) < nxt st \<and> s_arr (Values dst) < nxt st \<and>
      disjoint (s_arr (Timestamps dst)) (s_off (Timestamps dst)) (s_cap (Timestamps dst))
               (s_arr (Values dst)) (s_off (Values dst)) (s_cap (Values dst)))"

section \<open>Concrete collaborators, requests and stores\<close>

text \<open>
  A small directory for the closed instances below: one organization, one bucket in it,
  one legacy mapping onto them and one stale mapping onto an organization that is gone.
  A collaborator's error is a pair of its code and its message.
\<close>

definition acme :: Organization where
  "acme = \<lparr>org_ID = 1, org_Name = ''acme''\<rparr>"

definition metrics :: Bucket where
  "metrics = \<lparr>bkt_ID = 10, bkt_Name = ''metrics'', bkt_OrganizationID = 1\<rparr>"

definition demo_IDFromString :: "string \<Rightarrow> (string \<times> string) + ID" where
  "demo_IDFromString s =
     (if s = ''0000000000000001'' then Inr 1
      else if s = ''000000000000000a'' then Inr 10
      else if s = ''0000000000000063'' then Inr 99
      else Inl (''invalid'', ''id must have a length of 16 bytes''))"

text \<open>The organization directory matches on every field the filter gives.\<close>

definition demo_FindOrganization ::
  "OrganizationFilter \<Rightarrow> (string \<times> string) + Organization" where
  "demo_FindOrganization flt =
     (if (of_ID flt = Some 1 \<or> of_Name flt = Some ''acme'')
         \<and> (of_ID flt = None \<or> of_ID flt = Some 1)
         \<and> (of_Name flt = None \<or> of_Name flt = Some ''acme'')
      then Inr acme
      else Inl (''not found'', ''organization not found''))"

definition demo_FindBucket :: "BucketFilter \<Rightarrow> (string \<times> string) + Bucket" where
  "demo_FindBucket flt =
     (if bf_ID flt = Some 99 then Inl (''unavailable'', ''bucket store is down'')
      else if bf_OrganizationID flt = Some 1
              \<and> (bf_ID flt = Some 10 \<or> bf_Name flt = Some ''metrics''
                   \<or> bf_Name flt = Some ''0000000000000001'')
      then Inr metrics
      else Inl (''not found'', ''bucket not found''))"

definition demo_FindMany ::
  "DBRPMappingFilterV2 \<Rightarrow> (string \<times> string) + DBRPMappingV2 list" where
  "demo_FindMany flt =
     (if df_Database flt = Some ''mydb'' \<and> df_RetentionPolicy flt = Some ''autogen''
      then Inr [\<lparr>dbrp_Database = ''mydb'', dbrp_RetentionPolicy = ''autogen'',
                 dbrp_OrganizationID = 1, dbrp_BucketID = 10\<rparr>]
      else if df_Database flt = Some ''olddb''
      then Inr [\<lparr>dbrp_Database = ''olddb'', dbrp_RetentionPolicy = ''autogen'',
                 dbrp_OrganizationID = 2, dbrp_BucketID = 20\<rparr>]
      else Inr [])"

definition demo_Parse ::
  "8 word list \<Rightarrow> int \<Rightarrow> string \<Rightarrow> string list \<times> (string \<times> string) option" where
  "demo_Parse bs t precision =
     (if bs = [] then ([], None)
      else if bs = [1] then ([''cpu value=1''], None)
      else if bs = [2] then ([''cpu value=1''], Some (''invalid'', ''EOF''))
      else ([], Some (''invalid'', ''unable to parse'')))"

definition demo_env :: "(string \<times> string, string, 8 word list) env" where
  "demo_env =
     \<lparr>IDFromString = demo_IDFromString,
      ErrorCode = fst,
      ENotFound = ''not found'',
      Error = snd,
      FindOrganization = demo_FindOrganization,
      FindOrganizationByID = (\<lambda>i. if i = 1 then Inr acme
                                   else Inl (''not found'', ''organization not found'')),
      FindBucket = demo_FindBucket,
      FindBucketByID = (\<lambda>i. if i = 10 then Inr metrics
                             else Inl (''not found'', ''bucket not found'')),
      FindMany = demo_FindMany,
      WritePoints = (\<lambda>org bucket points. None),
      NewReader = (\<lambda>b. if b = [] then Inl (''internal error'', ''EOF'') else Inr b),
      ReadFrom = Inr,
      ParsePointsWithPrecision = demo_Parse,
      Now = 0\<rparr>"

text \<open>A request with the given query pairs, zipped or not, and the given body.\<close>

definition demo_request ::
  "(string \<times> string) list \<Rightarrow> bool \<Rightarrow> 8 word list \<Rightarrow> 8 word list request" where
  "demo_request q gz b =
     \<lparr>Query = map_of (map (\<lambda>(k, v). (k, [v])) q),
      Header = (if gz then map_of [(''Content-Encoding'', [''gzip''])] else Map.empty),
      ContentLength = int (length b),
      Body = b\<rparr>"

text \<open>Requests: by names, with no tenant at all, by the legacy pair, and so on.\<close>

definition req_names :: "8 word list request" where
  "req_names = demo_request [(''org'', ''acme''), (''bucket'', ''metrics'')] False [1]"

definition req_empty :: "8 word list request" where
  "req_empty = demo_request [] False [1]"

definition req_legacy :: "8 word list request" where
  "req_legacy = demo_request [(''db'', ''mydb''), (''rp'', ''autogen'')] False [1]"

definition req_stale :: "8 word list request" where
  "req_stale = demo_request [(''db'', ''olddb''), (''rp'', ''autogen'')] False [1]"

definition req_bucket :: "string \<Rightarrow> 8 word list request" where
  "req_bucket b = demo_request [(''org'', ''acme''), (''bucket'', b)] False [1]"

definition req_org :: "string \<Rightarrow> string \<Rightarrow> 8 word list request" where
  "req_org name ident =
     demo_request [(''org'', name), (''org_id'', ident), (''bucket'', ''metrics'')] False [1]"

definition req_body :: "bool \<Rightarrow> 8 word list \<Rightarrow> 8 word list request" where
  "req_body gz b = demo_request [(''org'', ''acme''), (''bucket'', ''metrics'')] gz b"

text \<open>A store of the given arrays, and a slice by its four numbers.\<close>

definition arrays :: "'a \<Rightarrow> 'a list list \<Rightarrow> 'a store" where
  "arrays z as =
     \<lparr>cell = (\<lambda>a i. if a < length as \<and> i < length (as ! a) then as ! a ! i else z),
      nxt = length as\<rparr>"

definition sl :: "nat \<Rightarrow> nat \<Rightarrow> nat \<Rightarrow> nat \<Rightarrow> slice" where
  "sl a p n c = \<lparr>s_arr = a, s_off = p, s_len = n, s_cap = c\<rparr>"

definition demo_runtime :: "64 word runtime" where
  "demo_runtime = \<lparr>growcap = (\<lambda>old n. 2 * old), zero_ts = 0, zero_val = 0\<rparr>"

definition demo_store :: "64 word store" where
  "demo_store =
     arrays 0 [[10, 20, 0], [1, 2], [11, 12, 13], [21, 22, 23], [14], [24], [15, 16],
               [25, 26], [91, 92], [93, 94]]"

text \<open>
  A source of two points whose timestamps leave one cell of capacity, and a destination
  whose timestamps start one cell into the source's array
  (\<^verbatim>\<open>dst.Timestamps = src.Timestamps[1:1]\<close>).
\<close>

definition alias_src :: Array where
  "alias_src = \<lparr>Timestamps = sl 0 0 2 3, Values = sl 1 0 2 2\<rparr>"

definition alias_dst :: Array where
  "alias_dst = \<lparr>Timestamps = sl 0 1 0 2, Values = sl 9 0 2 2\<rparr>"

text \<open>Three sources of lengths 3, 1 and 2, and a destination that holds two points.\<close>

definition src3 :: Array where
  "src3 = \<lparr>Timestamps = sl 2 0 3 3, Values = sl 3 0 3 3\<rparr>"

definition src1 :: Array where
  "src1 = \<lparr>Timestamps = sl 4 0 1 1, Values = sl 5 0 1 1\<rparr>"

definition src2 :: Array where
  "src2 = \<lparr>Timestamps = sl 6 0 2 2, Values = sl 7 0 2 2\<rparr>"

definition full_dst :: Array where
  "full_dst = \<lparr>Timestamps = sl 8 0 2 2, Values = sl 9 0 2 2\<rparr>"

section \<open>Unfolding\<close>

lemmas tenant_defs = findTenantV2_def findTenantV1_def findOrganization_def findBucket_def
  Let_def

lemmas demo_defs = demo_env_def demo_request_def demo_IDFromString_def
  demo_FindOrganization_def demo_FindBucket_def demo_FindMany_def demo_Parse_def
  acme_def metrics_def Get_def

lemmas demo_heap = demo_runtime_def demo_store_def arrays_def sl_def

section \<open>Precision normalisation\<close>

lemma precision_switch1_cases:
  "precision_switch1 t = Inr p \<Longrightarrow>
     p = ''n'' \<or> p = ''u'' \<or> p = ''ms'' \<or> p = ''s'' \<or> p = []"
  by (auto simp: precision_switch1_def split: if_splits)

lemma normalize_precision_eq:
  "normalize_precision t =
     (if t = ''ns'' then Inr ''n''
      else if t = ''us'' then Inr ''u''
      else if t = ''ms'' \<or> t = ''s'' \<or> t = [] then Inr t
      else Inl (Errorf ''invalid precision %q (use ns, us, ms or s)'' [t]))"
  by (simp add: normalize_precision_def precision_switch1_def precision_switch2_def)

lemma normalize_precision_err:
  "normalize_precision t = Inl e \<Longrightarrow>
     e = Errorf ''invalid precision %q (use ns, us, ms or s)'' [t]"
  by (simp add: normalize_precision_eq split: if_splits)

text \<open>
  Claim C1, as the code has it: the tokens \<^verbatim>\<open>""\<close>, \<^verbatim>\<open>ns\<close>, \<^verbatim>\<open>us\<close>, \<^verbatim>\<open>ms\<close>, \<^verbatim>\<open>s\<close>
  normalise to \<^verbatim>\<open>""\<close>, \<^verbatim>\<open>n\<close>, \<^verbatim>\<open>u\<close>, \<^verbatim>\<open>ms\<close>, \<^verbatim>\<open>s\<close>; every other token, \<^verbatim>\<open>m\<close>
  and \<^verbatim>\<open>h\<close> among them, fails with the first switch's invalid-precision error.
\<close>

theorem normalize_precision_tokens:
  "normalize_precision [] = (Inr [] :: 'e error + string)
   \<and> normalize_precision ''ns'' = (Inr ''n'' :: 'e error + string)
   \<and> normalize_precision ''us'' = (Inr ''u'' :: 'e error + string)
   \<and> normalize_precision ''ms'' = (Inr ''ms'' :: 'e error + string)
   \<and> normalize_precision ''s'' = (Inr ''s'' :: 'e error + string)
   \<and> (t \<notin> {[], ''ns'', ''us'', ''ms'', ''s''} \<longrightarrow>
        normalize_precision t =
          (Inl (Errorf ''invalid precision %q (use ns, us, ms or s)'' [t]) :: 'e error + string))"
  by (simp add: normalize_precision_eq)

theorem normalize_precision_tokens_witness:
  "''min'' \<notin> {[], ''ns'', ''us'', ''ms'', ''s''}
   \<and> normalize_precision ''min'' =
       (Inl (Errorf ''invalid precision %q (use ns, us, ms or s)'' [''min'']) :: unit error + string)"
  using normalize_precision_tokens [where 'e = unit and t = "''min''"] by simp

text \<open>
  The claim as it was stated has \<^verbatim>\<open>m\<close> and \<^verbatim>\<open>h\<close> pass unchanged. Both stop at the
  first switch, whose \<^verbatim>\<open>default\<close> branch returns before the second switch is reached.
\<close>

theorem normalize_precision_rejects_m_and_h:
  "normalize_precision ''m'' =
     (Inl (Errorf ''invalid precision %q (use ns, us, ms or s)'' [''m'']) :: unit error + string)
   \<and> normalize_precision ''h'' =
     (Inl (Errorf ''invalid precision %q (use ns, us, ms or s)'' [''h'']) :: unit error + string)"
  by (simp add: normalize_precision_def precision_switch1_def)

subsection \<open>The errors the handler reports\<close>

lemma findOrganization_err:
  "findOrganization h r = (Inl e, cs) \<Longrightarrow> \<exists>x. e = Ext x"
  by (auto simp: findOrganization_def Let_def map_sum_def split: if_splits sum.splits)

lemma findBucket_err:
  "findBucket h r i = (Inl e, cs) \<Longrightarrow> \<exists>x. e = Ext x"
  by (auto simp: findBucket_def Let_def map_sum_def split: if_splits sum.splits)

lemma findTenantV2_err:
  "findTenantV2 h r = (Inl e, cs) \<Longrightarrow> \<exists>x. e = Ext x"
  by (auto simp: findTenantV2_def split: prod.splits sum.splits
      dest: findOrganization_err findBucket_err)

lemma resolve_tenant_err:
  "resolve_tenant h r = (Inl e, cs) \<Longrightarrow> \<exists>x. e = Ext x"
  by (auto simp: resolve_tenant_def split: prod.splits sum.splits dest: findTenantV2_err)

lemma handleWrite_err:
  "fst (handleWrite h r) = ApiErr e \<Longrightarrow>
     e = Errorf ''invalid precision %q (use ns, us, ms or s)'' [Get (Query r) ''precision'']
     \<or> (\<exists>x. e = Ext x)"
  by (auto simp: handleWrite_def split: prod.splits sum.splits option.splits if_splits
      dest: resolve_tenant_err normalize_precision_err)

text \<open>
  Claim C9: the failure branch of the second precision switch is unreachable. Every value
  the first switch lets through is accepted by the second; so neither the two switches
  together nor the handler as a whole ever report the second switch's error.
\<close>

theorem precision_switch2_never_fails:
  "(precision_switch1 t = Inr p \<longrightarrow> precision_switch2 p = Inr p)
   \<and> normalize_precision t \<noteq> Inl (Errorf ''invalid precision %q (use n, u, ms, s, m or h)'' args)
   \<and> fst (handleWrite h r) \<noteq> ApiErr (Errorf ''invalid precision %q (use n, u, ms, s, m or h)'' args)"
proof (intro conjI impI)
  assume "precision_switch1 t = Inr p"
  from precision_switch1_cases [OF this] show "precision_switch2 p = Inr p"
    by (auto simp: precision_switch2_def)
next
  show "normalize_precision t \<noteq> Inl (Errorf ''invalid precision %q (use n, u, ms, s, m or h)'' args)"
    by (auto dest: normalize_precision_err)
next
  show "fst (handleWrite h r) \<noteq> ApiErr (Errorf ''invalid precision %q (use n, u, ms, s, m or h)'' args)"
    by (auto dest: handleWrite_err)
qed

theorem precision_switch2_never_fails_witness:
  "precision_switch1 ''ns'' = (Inr ''n'' :: unit error + string)
   \<and> precision_switch2 ''n'' = (Inr ''n'' :: unit error + string)"
proof -
  have h: "precision_switch1 ''ns'' = (Inr ''n'' :: unit error + string)"
    by (simp add: precision_switch1_def)
  from precision_switch2_never_fails [where t = "''ns''" and p = "''n''"] h
  show ?thesis by blast
qed

section \<open>Tenant resolution\<close>

lemma findOrganization_calls:
  "findOrganization h r = (res, cs) \<Longrightarrow> c \<in> set cs \<Longrightarrow> \<exists>f. c = CallFindOrganization f"
  by (auto simp: findOrganization_def Let_def split: if_splits sum.splits)

lemma findBucket_calls:
  "findBucket h r i = (res, cs) \<Longrightarrow> c \<in> set cs \<Longrightarrow> \<exists>f. c = CallFindBucket f"
  by (auto simp: findBucket_def Let_def split: if_splits sum.splits)

lemma findTenantV2_calls:
  "findTenantV2 h r = (res, cs) \<Longrightarrow> c \<in> set cs \<Longrightarrow>
     (\<exists>f. c = CallFindOrganization f) \<or> (\<exists>f. c = CallFindBucket f)"
proof -
  assume v2: "findTenantV2 h r = (res, cs)" and c: "c \<in> set cs"
  obtain ro co where o: "findOrganization h r = (ro, co)"
    by (cases "findOrganization h r") blast
  show ?thesis
  proof (cases ro)
    case (Inl e)
    with v2 o have "cs = co" by (simp add: findTenantV2_def)
    with c findOrganization_calls [OF o] show ?thesis by blast
  next
    case (Inr org)
    obtain rb cb where b: "findBucket h r (org_ID org) = (rb, cb)"
      by (cases "findBucket h r (org_ID org)") blast
    from v2 o b Inr have "cs = co @ cb"
      by (cases rb) (simp_all add: findTenantV2_def)
    with c have "c \<in> set co \<or> c \<in> set cb" by simp
    with findOrganization_calls [OF o] findBucket_calls [OF b] show ?thesis by blast
  qed
qed

lemma resolve_tenant_V2_ok:
  "findTenantV2 h r = (Inr t, cs) \<Longrightarrow> resolve_tenant h r = (Inr t, cs)"
  by (simp add: resolve_tenant_def)

lemma resolve_tenant_both_fail:
  "findTenantV2 h r = (Inl err, cs) \<Longrightarrow> findTenantV1 h r = (Inl v1err, cs') \<Longrightarrow>
     resolve_tenant h r = (Inl err, cs @ cs')"
  by (simp add: resolve_tenant_def)

lemma handleWrite_calls_legacy:
  assumes "c \<in> set (snd (handleWrite h r))"
    and "c = CallFindMany f \<or> c = CallFindOrganizationByID i \<or> c = CallFindBucketByID i"
  shows "\<exists>err cs. findTenantV2 h r = (Inl err, cs)"
proof (cases "findTenantV2 h r")
  case (Pair res cs)
  show ?thesis
  proof (cases res)
    case (Inl err)
    with Pair show ?thesis by blast
  next
    case (Inr t)
    with Pair have rt: "resolve_tenant h r = (Inr t, cs)" by (simp add: resolve_tenant_V2_ok)
    have "c \<in> set cs \<or> (\<exists>a b ps. c = CallWritePoints a b ps)"
      using assms(1) rt
      by (auto simp: handleWrite_def split: prod.splits sum.splits option.splits if_splits)
    with assms(2) have "c \<in> set cs" by auto
    from findTenantV2_calls [OF Pair this] assms(2) show ?thesis by auto
  qed
qed

text \<open>
  Claim C2: the legacy scheme is attempted only when the current scheme fails, and when
  both fail the caller sees the current scheme's error. When \<open>findTenantV2\<close> succeeds its
  result and its calls are all there is; a call of the legacy scheme in the handler's log
  (\<^verbatim>\<open>FindMany\<close>, or one of the two lookups by ID) means \<open>findTenantV2\<close> failed; and
  when both fail, the error of \<open>findTenantV2\<close> is what goes to \<^verbatim>\<open>h.api.Err\<close>.
\<close>

theorem resolve_tenant_precedence:
  fixes h :: "('e, 'p, 'r) env"
  shows "(findTenantV2 h r = (Inr t, cs) \<longrightarrow> resolve_tenant h r = (Inr t, cs))
   \<and> (c \<in> set (snd (handleWrite h r))
        \<and> (c = CallFindMany f \<or> c = CallFindOrganizationByID i \<or> c = CallFindBucketByID i)
        \<longrightarrow> (\<exists>err cs. findTenantV2 h r = (Inl err, cs)))
   \<and> (findTenantV2 h r = (Inl err, cs) \<and> findTenantV1 h r = (Inl v1err, cs') \<longrightarrow>
        resolve_tenant h r = (Inl err, cs @ cs')
        \<and> (\<forall>p. normalize_precision (Get (Query r) ''precision'') = (Inr p :: 'e error + string) \<longrightarrow>
              handleWrite h r = (ApiErr err, cs @ cs')))"
proof (intro conjI impI allI)
  show "resolve_tenant h r = (Inr t, cs)" if "findTenantV2 h r = (Inr t, cs)"
    using that by (rule resolve_tenant_V2_ok)
  show "\<exists>err cs. findTenantV2 h r = (Inl err, cs)"
    if "c \<in> set (snd (handleWrite h r))
        \<and> (c = CallFindMany f \<or> c = CallFindOrganizationByID i \<or> c = CallFindBucketByID i)"
    using handleWrite_calls_legacy [of c h r f i] that by blast
  show "resolve_tenant h r = (Inl err, cs @ cs')"
    if "findTenantV2 h r = (Inl err, cs) \<and> findTenantV1 h r = (Inl v1err, cs')"
    using that by (simp add: resolve_tenant_both_fail)
  show "handleWrite h r = (ApiErr err, cs @ cs')"
    if "findTenantV2 h r = (Inl err, cs) \<and> findTenantV1 h r = (Inl v1err, cs')"
      and "normalize_precision (Get (Query r) ''precision'') = (Inr p :: 'e error + string)" for p
    using that by (simp add: handleWrite_def resolve_tenant_both_fail)
qed


theorem resolve_tenant_precedence_witness:
  "findTenantV2 demo_env req_names =
     (Inr (acme, metrics),
      [CallFindOrganization \<lparr>of_Name = Some ''acme'', of_ID = None\<rparr>,
       CallFindBucket \<lparr>bf_ID = None, bf_Name = Some ''metrics'', bf_OrganizationID = Some 1\<rparr>])
   \<and> resolve_tenant demo_env req_names =
     (Inr (acme, metrics),
      [CallFindOrganization \<lparr>of_Name = Some ''acme'', of_ID = None\<rparr>,
       CallFindBucket \<lparr>bf_ID = None, bf_Name = Some ''metrics'', bf_OrganizationID = Some 1\<rparr>])
   \<and> CallFindMany \<lparr>df_Database = Some [], df_RetentionPolicy = Some []\<rparr>
        \<in> set (snd (handleWrite demo_env req_empty))
   \<and> findTenantV2 demo_env req_empty =
     (Inl (Ext (''not found'', ''organization not found'')),
      [CallFindOrganization \<lparr>of_Name = None, of_ID = None\<rparr>])
   \<and> findTenantV1 demo_env req_empty =
     (Inl (Errorf ''failed for find DBRP mapping for db:%q, rp:%q'' [[], []]),
      [CallFindMany \<lparr>df_Database = Some [], df_RetentionPolicy = Some []\<rparr>])
   \<and> handleWrite demo_env req_empty =
     (ApiErr (Ext (''not found'', ''organization not found'')),
      [CallFindOrganization \<lparr>of_Name = None, of_ID = None\<rparr>,
       CallFindMany \<lparr>df_Database = Some [], df_RetentionPolicy = Some []\<rparr>])"
proof -
  have v2: "findTenantV2 demo_env req_names =
     (Inr (acme, metrics),
      [CallFindOrganization \<lparr>of_Name = Some ''acme'', of_ID = None\<rparr>,
       CallFindBucket \<lparr>bf_ID = None, bf_Name = Some ''metrics'', bf_OrganizationID = Some 1\<rparr>])"
    by (simp add: tenant_defs req_names_def req_empty_def demo_defs)
  have e2: "findTenantV2 demo_env req_empty =
     (Inl (Ext (''not found'', ''organization not found'')),
      [CallFindOrganization \<lparr>of_Name = None, of_ID = None\<rparr>])"
    by (simp add: tenant_defs req_names_def req_empty_def demo_defs)
  have e1: "findTenantV1 demo_env req_empty =
     (Inl (Errorf ''failed for find DBRP mapping for db:%q, rp:%q'' [[], []]),
      [CallFindMany \<lparr>df_Database = Some [], df_RetentionPolicy = Some []\<rparr>])"
    by (simp add: tenant_defs req_names_def req_empty_def demo_defs)
  have p: "normalize_precision (Get (Query req_empty) ''precision'')
      = (Inr [] :: (string \<times> string) error + string)"
    by (simp add: normalize_precision_def precision_switch1_def precision_switch2_def
        req_names_def req_empty_def demo_defs)
  note t1 = resolve_tenant_precedence [where h = demo_env and r = req_names
      and t = "(acme, metrics)"
      and cs = "[CallFindOrganization \<lparr>of_Name = Some ''acme'', of_ID = None\<rparr>,
       CallFindBucket \<lparr>bf_ID = None, bf_Name = Some ''metrics'', bf_OrganizationID = Some 1\<rparr>]"]
  note t2 = resolve_tenant_precedence [where h = demo_env and r = req_empty
      and f = "\<lparr>df_Database = Some [], df_RetentionPolicy = Some []\<rparr>"
      and err = "Ext (''not found'', ''organization not found'')"
      and cs = "[CallFindOrganization \<lparr>of_Name = None, of_ID = None\<rparr>]"
      and ?v1err = "Errorf ''failed for find DBRP mapping for db:%q, rp:%q'' [[], []]"
      and ?cs' = "[CallFindMany \<lparr>df_Database = Some [], df_RetentionPolicy = Some []\<rparr>]"]
  from t1 v2 have r1: "resolve_tenant demo_env req_names =
     (Inr (acme, metrics),
      [CallFindOrganization \<lparr>of_Name = Some ''acme'', of_ID = None\<rparr>,
       CallFindBucket \<lparr>bf_ID = None, bf_Name = Some ''metrics'', bf_OrganizationID = Some 1\<rparr>])"
    by blast
  from t2 e2 e1 p have hw: "handleWrite demo_env req_empty =
     (ApiErr (Ext (''not found'', ''organization not found'')),
      [CallFindOrganization \<lparr>of_Name = None, of_ID = None\<rparr>] @
      [CallFindMany \<lparr>df_Database = Some [], df_RetentionPolicy = Some []\<rparr>])"
    by blast
  from v2 r1 e2 e1 hw show ?thesis by simp
qed

text \<open>
  Claim C3, as the code has it: for every \<^verbatim>\<open>db\<close>/\<^verbatim>\<open>rp\<close> pair, legacy resolution
  succeeds if and only if the mapping lookup returns exactly one match and both the
  organization and the bucket are found by the IDs stored in that match; its result is then
  those two. A lookup that returns no match or more than one is a failure.
\<close>

theorem findTenantV1_success_iff:
  "(findTenantV1 h r = (Inr (org, bucket), cs) \<longleftrightarrow>
      (\<exists>m. FindMany h \<lparr>df_Database = Some (Get (Query r) ''db''),
                        df_RetentionPolicy = Some (Get (Query r) ''rp'')\<rparr> = Inr [m]
         \<and> FindOrganizationByID h (dbrp_OrganizationID m) = Inr org
         \<and> FindBucketByID h (dbrp_BucketID m) = Inr bucket
         \<and> cs = [CallFindMany \<lparr>df_Database = Some (Get (Query r) ''db''),
                                df_RetentionPolicy = Some (Get (Query r) ''rp'')\<rparr>,
                  CallFindOrganizationByID (dbrp_OrganizationID m),
                  CallFindBucketByID (dbrp_BucketID m)]))
   \<and> (FindMany h \<lparr>df_Database = Some (Get (Query r) ''db''),
                    df_RetentionPolicy = Some (Get (Query r) ''rp'')\<rparr> = Inr ms
        \<and> length ms \<noteq> 1 \<longrightarrow>
        findTenantV1 h r =
          (Inl (Errorf ''failed for find DBRP mapping for db:%q, rp:%q''
                  [Get (Query r) ''db'', Get (Query r) ''rp'']),
           [CallFindMany \<lparr>df_Database = Some (Get (Query r) ''db''),
                           df_RetentionPolicy = Some (Get (Query r) ''rp'')\<rparr>]))"
proof (intro conjI impI)
  show "findTenantV1 h r = (Inr (org, bucket), cs) \<longleftrightarrow>
      (\<exists>m. FindMany h \<lparr>df_Database = Some (Get (Query r) ''db''),
                        df_RetentionPolicy = Some (Get (Query r) ''rp'')\<rparr> = Inr [m]
         \<and> FindOrganizationByID h (dbrp_OrganizationID m) = Inr org
         \<and> FindBucketByID h (dbrp_BucketID m) = Inr bucket
         \<and> cs = [CallFindMany \<lparr>df_Database = Some (Get (Query r) ''db''),
                                df_RetentionPolicy = Some (Get (Query r) ''rp'')\<rparr>,
                  CallFindOrganizationByID (dbrp_OrganizationID m),
                  CallFindBucketByID (dbrp_BucketID m)])"
    by (auto simp: findTenantV1_def Let_def split: sum.splits list.splits)
next
  assume "FindMany h \<lparr>df_Database = Some (Get (Query r) ''db''),
                    df_RetentionPolicy = Some (Get (Query r) ''rp'')\<rparr> = Inr ms
        \<and> length ms \<noteq> 1"
  then show "findTenantV1 h r =
          (Inl (Errorf ''failed for find DBRP mapping for db:%q, rp:%q''
                  [Get (Query r) ''db'', Get (Query r) ''rp'']),
           [CallFindMany \<lparr>df_Database = Some (Get (Query r) ''db''),
                           df_RetentionPolicy = Some (Get (Query r) ''rp'')\<rparr>])"
    by (auto simp: findTenantV1_def Let_def split: sum.splits list.splits)
qed

theorem findTenantV1_success_iff_witness:
  "FindMany demo_env \<lparr>df_Database = Some (Get (Query req_empty) ''db''),
        df_RetentionPolicy = Some (Get (Query req_empty) ''rp'')\<rparr> = Inr []
   \<and> length ([] :: DBRPMappingV2 list) \<noteq> 1
   \<and> findTenantV1 demo_env req_empty =
       (Inl (Errorf ''failed for find DBRP mapping for db:%q, rp:%q'' [[], []]),
        [CallFindMany \<lparr>df_Database = Some [], df_RetentionPolicy = Some []\<rparr>])
   \<and> findTenantV1 demo_env req_legacy =
       (Inr (acme, metrics),
        [CallFindMany \<lparr>df_Database = Some ''mydb'', df_RetentionPolicy = Some ''autogen''\<rparr>,
         CallFindOrganizationByID 1, CallFindBucketByID 10])"
proof -
  have m: "FindMany demo_env \<lparr>df_Database = Some (Get (Query req_empty) ''db''),
        df_RetentionPolicy = Some (Get (Query req_empty) ''rp'')\<rparr> = Inr []"
    by (simp add: req_empty_def req_legacy_def demo_defs)
  have g: "Get (Query req_empty) ''db'' = []" "Get (Query req_empty) ''rp'' = []"
    by (simp_all add: req_empty_def req_legacy_def demo_defs)
  have l: "FindMany demo_env \<lparr>df_Database = Some (Get (Query req_legacy) ''db''),
        df_RetentionPolicy = Some (Get (Query req_legacy) ''rp'')\<rparr>
      = Inr [\<lparr>dbrp_Database = ''mydb'', dbrp_RetentionPolicy = ''autogen'',
                 dbrp_OrganizationID = 1, dbrp_BucketID = 10\<rparr>]"
      "FindOrganizationByID demo_env 1 = Inr acme" "FindBucketByID demo_env 10 = Inr metrics"
      "Get (Query req_legacy) ''db'' = ''mydb''" "Get (Query req_legacy) ''rp'' = ''autogen''"
    by (simp_all add: req_empty_def req_legacy_def demo_defs)
  note t1 = findTenantV1_success_iff [where h = demo_env and r = req_empty
      and ms = "[]", THEN conjunct2]
  note t2 = findTenantV1_success_iff [where h = demo_env and r = req_legacy
      and org = acme and bucket = metrics
      and cs = "[CallFindMany \<lparr>df_Database = Some ''mydb'', df_RetentionPolicy = Some ''autogen''\<rparr>,
         CallFindOrganizationByID 1, CallFindBucketByID 10]", THEN conjunct1]
  from t1 m g have a: "findTenantV1 demo_env req_empty =
       (Inl (Errorf ''failed for find DBRP mapping for db:%q, rp:%q'' [[], []]),
        [CallFindMany \<lparr>df_Database = Some [], df_RetentionPolicy = Some []\<rparr>])"
    by simp
  from l have b: "findTenantV1 demo_env req_legacy =
       (Inr (acme, metrics),
        [CallFindMany \<lparr>df_Database = Some ''mydb'', df_RetentionPolicy = Some ''autogen''\<rparr>,
         CallFindOrganizationByID 1, CallFindBucketByID 10])"
    by (subst t2) simp
  from m a b show ?thesis by simp
qed

text \<open>
  The claim as it was stated makes a single match enough for success. The stale mapping is
  the only match for its pair, and resolution fails all the same: the organization it
  names is not found, and \<open>findTenantV1\<close> returns that error.
\<close>

theorem findTenantV1_single_match_fails:
  "FindMany demo_env \<lparr>df_Database = Some ''olddb'', df_RetentionPolicy = Some ''autogen''\<rparr>
     = Inr [\<lparr>dbrp_Database = ''olddb'', dbrp_RetentionPolicy = ''autogen'',
              dbrp_OrganizationID = 2, dbrp_BucketID = 20\<rparr>]
   \<and> findTenantV1 demo_env req_stale =
       (Inl (Ext (''not found'', ''organization not found'')),
        [CallFindMany \<lparr>df_Database = Some ''olddb'', df_RetentionPolicy = Some ''autogen''\<rparr>,
         CallFindOrganizationByID 2])"
  by (simp add: tenant_defs req_stale_def demo_defs)

text \<open>
  Claim C4: when the \<^verbatim>\<open>bucket\<close> parameter parses as an ID, the first lookup is by that
  ID within the organization. If it succeeds its bucket is the result; if it fails with
  the not-found code, the result is that of a second lookup, by name, in the same
  organization; if it fails with any other code, that error is the result and no second
  lookup is made.
\<close>

theorem findBucket_id_then_name:
  assumes "IDFromString h (Get (Query r) ''bucket'') = Inr ident"
  shows "(FindBucket h \<lparr>bf_ID = Some ident, bf_Name = None, bf_OrganizationID = Some orgID\<rparr> = Inr b
          \<longrightarrow> findBucket h r orgID =
                (Inr b, [CallFindBucket \<lparr>bf_ID = Some ident, bf_Name = None,
                                         bf_OrganizationID = Some orgID\<rparr>]))
   \<and> (FindBucket h \<lparr>bf_ID = Some ident, bf_Name = None, bf_OrganizationID = Some orgID\<rparr> = Inl err
        \<and> ErrorCode h err = ENotFound h
          \<longrightarrow> findBucket h r orgID =
                (map_sum Ext id
                   (FindBucket h \<lparr>bf_ID = None, bf_Name = Some (Get (Query r) ''bucket''),
                                  bf_OrganizationID = Some orgID\<rparr>),
                 [CallFindBucket \<lparr>bf_ID = Some ident, bf_Name = None,
                                  bf_OrganizationID = Some orgID\<rparr>,
                  CallFindBucket \<lparr>bf_ID = None, bf_Name = Some (Get (Query r) ''bucket''),
                                  bf_OrganizationID = Some orgID\<rparr>]))
   \<and> (FindBucket h \<lparr>bf_ID = Some ident, bf_Name = None, bf_OrganizationID = Some orgID\<rparr> = Inl err
        \<and> ErrorCode h err \<noteq> ENotFound h
          \<longrightarrow> findBucket h r orgID =
                (Inl (Ext err), [CallFindBucket \<lparr>bf_ID = Some ident, bf_Name = None,
                                                 bf_OrganizationID = Some orgID\<rparr>]))"
  using assms by (simp add: findBucket_def Let_def)


theorem findBucket_id_then_name_witness:
  "IDFromString demo_env (Get (Query (req_bucket ''000000000000000a'')) ''bucket'') = Inr 10
   \<and> findBucket demo_env (req_bucket ''000000000000000a'') 1 =
       (Inr metrics,
        [CallFindBucket \<lparr>bf_ID = Some 10, bf_Name = None, bf_OrganizationID = Some 1\<rparr>])
   \<and> IDFromString demo_env (Get (Query (req_bucket ''0000000000000001'')) ''bucket'') = Inr 1
   \<and> findBucket demo_env (req_bucket ''0000000000000001'') 1 =
       (Inr metrics,
        [CallFindBucket \<lparr>bf_ID = Some 1, bf_Name = None, bf_OrganizationID = Some 1\<rparr>,
         CallFindBucket \<lparr>bf_ID = None, bf_Name = Some ''0000000000000001'',
                         bf_OrganizationID = Some 1\<rparr>])
   \<and> IDFromString demo_env (Get (Query (req_bucket ''0000000000000063'')) ''bucket'') = Inr 99
   \<and> findBucket demo_env (req_bucket ''0000000000000063'') 1 =
       (Inl (Ext (''unavailable'', ''bucket store is down'')),
        [CallFindBucket \<lparr>bf_ID = Some 99, bf_Name = None, bf_OrganizationID = Some 1\<rparr>])"
proof -
  have i1: "IDFromString demo_env (Get (Query (req_bucket ''000000000000000a'')) ''bucket'') = Inr 10"
    and i2: "IDFromString demo_env (Get (Query (req_bucket ''0000000000000001'')) ''bucket'') = Inr 1"
    and i3: "IDFromString demo_env (Get (Query (req_bucket ''0000000000000063'')) ''bucket'') = Inr 99"
    by (simp_all add: req_bucket_def demo_defs)
  have f1: "FindBucket demo_env \<lparr>bf_ID = Some 10, bf_Name = None, bf_OrganizationID = Some 1\<rparr>
      = Inr metrics"
    and f2: "FindBucket demo_env \<lparr>bf_ID = Some 1, bf_Name = None, bf_OrganizationID = Some 1\<rparr>
      = Inl (''not found'', ''bucket not found'')
      \<and> ErrorCode demo_env (''not found'', ''bucket not found'') = ENotFound demo_env"
    and f2': "map_sum Ext id (FindBucket demo_env
        \<lparr>bf_ID = None, bf_Name = Some (Get (Query (req_bucket ''0000000000000001'')) ''bucket''),
         bf_OrganizationID = Some 1\<rparr>) = Inr metrics"
      "Get (Query (req_bucket ''0000000000000001'')) ''bucket'' = ''0000000000000001''"
    and f3: "FindBucket demo_env \<lparr>bf_ID = Some 99, bf_Name = None, bf_OrganizationID = Some 1\<rparr>
      = Inl (''unavailable'', ''bucket store is down'')
      \<and> ErrorCode demo_env (''unavailable'', ''bucket store is down'') \<noteq> ENotFound demo_env"
    by (simp_all add: req_bucket_def demo_defs)
  from findBucket_id_then_name [OF i1, where orgID = 1 and b = metrics] f1
  have a: "findBucket demo_env (req_bucket ''000000000000000a'') 1 =
       (Inr metrics,
        [CallFindBucket \<lparr>bf_ID = Some 10, bf_Name = None, bf_OrganizationID = Some 1\<rparr>])"
    by blast
  from findBucket_id_then_name [OF i2, where orgID = 1
      and err = "(''not found'', ''bucket not found'')"] f2
  have "findBucket demo_env (req_bucket ''0000000000000001'') 1 =
       (map_sum Ext id (FindBucket demo_env
          \<lparr>bf_ID = None, bf_Name = Some (Get (Query (req_bucket ''0000000000000001'')) ''bucket''),
           bf_OrganizationID = Some 1\<rparr>),
        [CallFindBucket \<lparr>bf_ID = Some 1, bf_Name = None, bf_OrganizationID = Some 1\<rparr>,
         CallFindBucket \<lparr>bf_ID = None,
            bf_Name = Some (Get (Query (req_bucket ''0000000000000001'')) ''bucket''),
            bf_OrganizationID = Some 1\<rparr>])"
    by blast
  with f2' have b: "findBucket demo_env (req_bucket ''0000000000000001'') 1 =
       (Inr metrics,
        [CallFindBucket \<lparr>bf_ID = Some 1, bf_Name = None, bf_OrganizationID = Some 1\<rparr>,
         CallFindBucket \<lparr>bf_ID = None, bf_Name = Some ''0000000000000001'',
                         bf_OrganizationID = Some 1\<rparr>])"
    by simp
  from findBucket_id_then_name [OF i3, where orgID = 1
      and err = "(''unavailable'', ''bucket store is down'')"] f3
  have c: "findBucket demo_env (req_bucket ''0000000000000063'') 1 =
       (Inl (Ext (''unavailable'', ''bucket store is down'')),
        [CallFindBucket \<lparr>bf_ID = Some 99, bf_Name = None, bf_OrganizationID = Some 1\<rparr>])"
    by blast
  from i1 i2 i3 a b c show ?thesis by simp
qed

text \<open>
  Claim C5, as the code has it: for a request with a non-empty \<^verbatim>\<open>org_id\<close>, a well-formed
  \<^verbatim>\<open>org_id\<close> becomes the ID of the organization filter, replacing any ID taken from
  \<^verbatim>\<open>org\<close>, while a name taken from \<^verbatim>\<open>org\<close> stays in the filter beside it; a malformed
  \<^verbatim>\<open>org_id\<close> ends the resolution with its format error before any lookup.
\<close>

theorem findOrganization_org_id:
  assumes "Get (Query r) ''org_id'' \<noteq> []"
  shows "(IDFromString h (Get (Query r) ''org_id'') = Inr ident \<longrightarrow>
           findOrganization h r =
             (map_sum Ext id (FindOrganization h
                \<lparr>of_Name = (if Get (Query r) ''org'' \<noteq> []
                                \<and> isl (IDFromString h (Get (Query r) ''org''))
                             then Some (Get (Query r) ''org'') else None),
                 of_ID = Some ident\<rparr>),
              [CallFindOrganization
                \<lparr>of_Name = (if Get (Query r) ''org'' \<noteq> []
                                \<and> isl (IDFromString h (Get (Query r) ''org''))
                             then Some (Get (Query r) ''org'') else None),
                 of_ID = Some ident\<rparr>]))
    \<and> (IDFromString h (Get (Query r) ''org_id'') = Inl err \<longrightarrow>
          findOrganization h r = (Inl (Ext err), []))"
  using assms by (auto simp: findOrganization_def Let_def split: sum.splits)

theorem findOrganization_org_id_witness:
  "Get (Query (req_org ''acme'' ''0000000000000001'')) ''org_id'' \<noteq> []
   \<and> IDFromString demo_env (Get (Query (req_org ''acme'' ''0000000000000001'')) ''org_id'') = Inr 1
   \<and> findOrganization demo_env (req_org ''acme'' ''0000000000000001'') =
       (Inr acme, [CallFindOrganization \<lparr>of_Name = Some ''acme'', of_ID = Some 1\<rparr>])
   \<and> Get (Query (req_org ''acme'' ''xyz'')) ''org_id'' \<noteq> []
   \<and> IDFromString demo_env (Get (Query (req_org ''acme'' ''xyz'')) ''org_id'')
        = Inl (''invalid'', ''id must have a length of 16 bytes'')
   \<and> findOrganization demo_env (req_org ''acme'' ''xyz'') =
       (Inl (Ext (''invalid'', ''id must have a length of 16 bytes'')), [])"
proof -
  have g1: "Get (Query (req_org ''acme'' ''0000000000000001'')) ''org_id'' \<noteq> []"
    and g2: "Get (Query (req_org ''acme'' ''xyz'')) ''org_id'' \<noteq> []"
    by (simp_all add: req_org_def demo_defs)
  have i1: "IDFromString demo_env (Get (Query (req_org ''acme'' ''0000000000000001'')) ''org_id'')
      = Inr 1"
    and i2: "IDFromString demo_env (Get (Query (req_org ''acme'' ''xyz'')) ''org_id'')
        = Inl (''invalid'', ''id must have a length of 16 bytes'')"
    by (simp_all add: req_org_def demo_defs)
  have n: "Get (Query (req_org ''acme'' ''0000000000000001'')) ''org'' = ''acme''"
      "isl (IDFromString demo_env ''acme'')"
      "FindOrganization demo_env \<lparr>of_Name = Some ''acme'', of_ID = Some 1\<rparr> = Inr acme"
    by (simp_all add: req_org_def demo_defs)
  from findOrganization_org_id [OF g1, where h = demo_env and ident = 1] i1 n
  have a: "findOrganization demo_env (req_org ''acme'' ''0000000000000001'') =
       (Inr acme, [CallFindOrganization \<lparr>of_Name = Some ''acme'', of_ID = Some 1\<rparr>])"
    by simp
  from findOrganization_org_id [OF g2, where h = demo_env
      and err = "(''invalid'', ''id must have a length of 16 bytes'')"] i2
  have b: "findOrganization demo_env (req_org ''acme'' ''xyz'') =
       (Inl (Ext (''invalid'', ''id must have a length of 16 bytes'')), [])"
    by blast
  from g1 g2 i1 i2 a b show ?thesis by simp
qed

text \<open>
  The claim as it was stated has the \<^verbatim>\<open>org_id\<close> override a name taken from \<^verbatim>\<open>org\<close>.
  With \<^verbatim>\<open>org=other\<close> and a well-formed \<^verbatim>\<open>org_id\<close> the filter handed to the
  directory carries the name and the ID; this directory honours both and finds nothing,
  although the organization with that ID exists.
\<close>

theorem findOrganization_keeps_org_name:
  "IDFromString demo_env (Get (Query (req_org ''other'' ''0000000000000001'')) ''org_id'') = Inr 1
   \<and> findOrganization demo_env (req_org ''other'' ''0000000000000001'') =
       (Inl (Ext (''not found'', ''organization not found'')),
        [CallFindOrganization \<lparr>of_Name = Some ''other'', of_ID = Some 1\<rparr>])
   \<and> FindOrganization demo_env \<lparr>of_Name = None, of_ID = Some 1\<rparr> = Inr acme"
  by (simp add: tenant_defs req_org_def demo_defs)

text \<open>
  Claim C10: a non-empty \<^verbatim>\<open>org\<close> that does not parse as an ID is no error; it goes
  into the filter as the organization's name, alone or beside the ID of a well-formed
  \<^verbatim>\<open>org_id\<close>. If the resolution ends without a lookup, it is the \<^verbatim>\<open>org_id\<close> that
  was malformed, and the error is its format error.
\<close>

theorem findOrganization_org_name:
  assumes "Get (Query r) ''org'' \<noteq> []"
    and "IDFromString h (Get (Query r) ''org'') = Inl e"
  shows "(Get (Query r) ''org_id'' = [] \<longrightarrow>
            findOrganization h r =
              (map_sum Ext id (FindOrganization h
                 \<lparr>of_Name = Some (Get (Query r) ''org''), of_ID = None\<rparr>),
               [CallFindOrganization \<lparr>of_Name = Some (Get (Query r) ''org''), of_ID = None\<rparr>]))
    \<and> (Get (Query r) ''org_id'' \<noteq> []
         \<and> IDFromString h (Get (Query r) ''org_id'') = Inr ident \<longrightarrow>
            findOrganization h r =
              (map_sum Ext id (FindOrganization h
                 \<lparr>of_Name = Some (Get (Query r) ''org''), of_ID = Some ident\<rparr>),
               [CallFindOrganization
                 \<lparr>of_Name = Some (Get (Query r) ''org''), of_ID = Some ident\<rparr>]))
    \<and> (snd (findOrganization h r) = [] \<longrightarrow>
          Get (Query r) ''org_id'' \<noteq> []
          \<and> (\<exists>e'. IDFromString h (Get (Query r) ''org_id'') = Inl e'
                 \<and> fst (findOrganization h r) = Inl (Ext e')))"
  using assms by (auto simp: findOrganization_def Let_def split: sum.splits)


theorem findOrganization_org_name_witness:
  "Get (Query (req_org ''acme'' [])) ''org'' \<noteq> []
   \<and> IDFromString demo_env (Get (Query (req_org ''acme'' [])) ''org'')
        = Inl (''invalid'', ''id must have a length of 16 bytes'')
   \<and> Get (Query (req_org ''acme'' [])) ''org_id'' = []
   \<and> findOrganization demo_env (req_org ''acme'' []) =
       (Inr acme, [CallFindOrganization \<lparr>of_Name = Some ''acme'', of_ID = None\<rparr>])
   \<and> findOrganization demo_env (req_org ''acme'' ''0000000000000001'') =
       (Inr acme, [CallFindOrganization \<lparr>of_Name = Some ''acme'', of_ID = Some 1\<rparr>])
   \<and> snd (findOrganization demo_env (req_org ''acme'' ''xyz'')) = []
   \<and> IDFromString demo_env (Get (Query (req_org ''acme'' ''xyz'')) ''org_id'')
        = Inl (''invalid'', ''id must have a length of 16 bytes'')"
proof -
  have o: "Get (Query (req_org ''acme'' x)) ''org'' = ''acme''"
      "Get (Query (req_org ''acme'' x)) ''org_id'' = x" for x
    by (simp_all add: req_org_def demo_defs)
  have i: "IDFromString demo_env ''acme'' = Inl (''invalid'', ''id must have a length of 16 bytes'')"
      "IDFromString demo_env ''0000000000000001'' = Inr 1"
      "IDFromString demo_env ''xyz'' = Inl (''invalid'', ''id must have a length of 16 bytes'')"
    by (simp_all add: demo_defs)
  have f: "FindOrganization demo_env \<lparr>of_Name = Some ''acme'', of_ID = None\<rparr> = Inr acme"
      "FindOrganization demo_env \<lparr>of_Name = Some ''acme'', of_ID = Some 1\<rparr> = Inr acme"
    by (simp_all add: demo_defs)
  have x: "snd (findOrganization demo_env (req_org ''acme'' ''xyz'')) = []"
    by (simp add: tenant_defs o i)
  note t = findOrganization_org_name [where h = demo_env
      and e = "(''invalid'', ''id must have a length of 16 bytes'')"]
  from t [where r = "req_org ''acme'' []"] o i f
  have a: "findOrganization demo_env (req_org ''acme'' []) =
       (Inr acme, [CallFindOrganization \<lparr>of_Name = Some ''acme'', of_ID = None\<rparr>])"
    by simp
  from t [where r = "req_org ''acme'' ''0000000000000001''" and ident = 1] o i f
  have b: "findOrganization demo_env (req_org ''acme'' ''0000000000000001'') =
       (Inr acme, [CallFindOrganization \<lparr>of_Name = Some ''acme'', of_ID = Some 1\<rparr>])"
    by simp
  from t [where r = "req_org ''acme'' ''xyz''"] o i x
  have c: "\<exists>e'. IDFromString demo_env ''xyz'' = Inl e'" by simp
  from o i a b c x show ?thesis by simp
qed

section \<open>Decoding outcomes\<close>

text \<open>
  Claim C6: once precision and tenant are settled, a parse that ends with the error
  \<^verbatim>\<open>EOF\<close> and no points answers 200 and writes nothing; any other parse error, or
  \<^verbatim>\<open>EOF\<close> with a point, goes to \<^verbatim>\<open>h.api.Err\<close>; a parse without error followed by
  a successful write answers 204. The two success answers differ.
\<close>

theorem handleWrite_parse_outcomes:
  fixes h :: "('e, 'p, 'r) env"
  assumes "normalize_precision (Get (Query r) ''precision'') = (Inr p :: 'e error + string)"
    and "resolve_tenant h r = (Inr (org, bucket), cs)"
  shows "(parsePoints h r p = (pts, Some e) \<and> Error h e = ''EOF'' \<and> pts = [] \<longrightarrow>
            handleWrite h r = (WriteHeader StatusOK, cs))
    \<and> (parsePoints h r p = (pts, Some e) \<and> (Error h e \<noteq> ''EOF'' \<or> pts \<noteq> []) \<longrightarrow>
            handleWrite h r = (ApiErr (Ext e), cs))
    \<and> (parsePoints h r p = (pts, None)
         \<and> WritePoints h (org_ID org) (bkt_ID bucket) pts = None \<longrightarrow>
            handleWrite h r =
              (WriteHeader StatusNoContent,
               cs @ [CallWritePoints (org_ID org) (bkt_ID bucket) pts]))
    \<and> WriteHeader StatusOK \<noteq> (WriteHeader StatusNoContent :: 'e response)"
  using assms by (auto simp: handleWrite_def StatusOK_def StatusNoContent_def)


theorem handleWrite_parse_outcomes_witness:
  "parsePoints demo_env (req_body True []) [] = ([], Some (''internal error'', ''EOF''))
   \<and> handleWrite demo_env (req_body True []) =
       (WriteHeader StatusOK,
        [CallFindOrganization \<lparr>of_Name = Some ''acme'', of_ID = None\<rparr>,
         CallFindBucket \<lparr>bf_ID = None, bf_Name = Some ''metrics'', bf_OrganizationID = Some 1\<rparr>])
   \<and> parsePoints demo_env (req_body False [2]) [] = ([''cpu value=1''], Some (''invalid'', ''EOF''))
   \<and> handleWrite demo_env (req_body False [2]) =
       (ApiErr (Ext (''invalid'', ''EOF'')),
        [CallFindOrganization \<lparr>of_Name = Some ''acme'', of_ID = None\<rparr>,
         CallFindBucket \<lparr>bf_ID = None, bf_Name = Some ''metrics'', bf_OrganizationID = Some 1\<rparr>])
   \<and> parsePoints demo_env (req_body False [1]) [] = ([''cpu value=1''], None)
   \<and> handleWrite demo_env (req_body False [1]) =
       (WriteHeader StatusNoContent,
        [CallFindOrganization \<lparr>of_Name = Some ''acme'', of_ID = None\<rparr>,
         CallFindBucket \<lparr>bf_ID = None, bf_Name = Some ''metrics'', bf_OrganizationID = Some 1\<rparr>,
         CallWritePoints 1 10 [''cpu value=1'']])"
proof -
  have p: "normalize_precision (Get (Query (req_body gz b)) ''precision'')
      = (Inr [] :: (string \<times> string) error + string)" for gz b
    by (simp add: normalize_precision_def precision_switch1_def precision_switch2_def
        req_body_def demo_defs)
  have t: "resolve_tenant demo_env (req_body gz b) =
      (Inr (acme, metrics),
       [CallFindOrganization \<lparr>of_Name = Some ''acme'', of_ID = None\<rparr>,
        CallFindBucket \<lparr>bf_ID = None, bf_Name = Some ''metrics'', bf_OrganizationID = Some 1\<rparr>])"
    for gz b
    by (simp add: resolve_tenant_def tenant_defs req_body_def demo_defs)
  have q: "parsePoints demo_env (req_body True []) [] = ([], Some (''internal error'', ''EOF''))"
      "parsePoints demo_env (req_body False [2]) [] = ([''cpu value=1''], Some (''invalid'', ''EOF''))"
      "parsePoints demo_env (req_body False [1]) [] = ([''cpu value=1''], None)"
    by (simp_all add: parsePoints_def req_body_def demo_defs)
  have e: "Error demo_env (''internal error'', ''EOF'') = ''EOF''"
      "Error demo_env (''invalid'', ''EOF'') = ''EOF''"
      "WritePoints demo_env (org_ID acme) (bkt_ID metrics) [''cpu value=1''] = None"
      "org_ID acme = 1" "bkt_ID metrics = 10"
    by (simp_all add: demo_defs)
  from handleWrite_parse_outcomes [OF p [of True "[]"] t [of True "[]"], where pts = "[]"
      and e = "(''internal error'', ''EOF'')"] q e
  have a: "handleWrite demo_env (req_body True []) =
       (WriteHeader StatusOK,
        [CallFindOrganization \<lparr>of_Name = Some ''acme'', of_ID = None\<rparr>,
         CallFindBucket \<lparr>bf_ID = None, bf_Name = Some ''metrics'', bf_OrganizationID = Some 1\<rparr>])"
    by blast
  from handleWrite_parse_outcomes [OF p [of False "[2]"] t [of False "[2]"],
      where pts = "[''cpu value=1'']" and e = "(''invalid'', ''EOF'')"] q e
  have b: "handleWrite demo_env (req_body False [2]) =
       (ApiErr (Ext (''invalid'', ''EOF'')),
        [CallFindOrganization \<lparr>of_Name = Some ''acme'', of_ID = None\<rparr>,
         CallFindBucket \<lparr>bf_ID = None, bf_Name = Some ''metrics'', bf_OrganizationID = Some 1\<rparr>])"
    by blast
  from handleWrite_parse_outcomes [OF p [of False "[1]"] t [of False "[1]"],
      where pts = "[''cpu value=1'']"] q e
  have c: "handleWrite demo_env (req_body False [1]) =
       (WriteHeader StatusNoContent,
        [CallFindOrganization \<lparr>of_Name = Some ''acme'', of_ID = None\<rparr>,
         CallFindBucket \<lparr>bf_ID = None, bf_Name = Some ''metrics'', bf_OrganizationID = Some 1\<rparr>]
        @ [CallWritePoints 1 10 [''cpu value=1'']])"
    by simp
  from q a b c show ?thesis by simp
qed


section \<open>Copying typed arrays\<close>

subsection \<open>Reading after an append\<close>

lemma length_rd: "length (rd st s) = s_len s"
  by (simp add: rd_def)

lemma rd_reslice0: "rd st (reslice0 d) = []"
  by (simp add: rd_def reslice0_def)

lemma apart_reslice0: "apart st (reslice0 d) s = apart st d s"
  by (simp add: apart_def reslice0_def)

lemma disjoint_sym: "disjoint a p n b q m = disjoint b q m a p n"
  by (auto simp: disjoint_def)

lemma append_go_rd:
  "append_go g z s xs st = (s', st') \<Longrightarrow> rd st' s' = rd st s @ xs"
  by (auto simp: append_go_def Let_def rd_def list_eq_iff_nth_eq nth_append split: if_splits)

lemma append_go_len:
  "append_go g z s xs st = (s', st') \<Longrightarrow> s_len s' = s_len s + length xs"
  by (auto simp: append_go_def Let_def split: if_splits)

lemma append_go_frame:
  "append_go g z s xs st = (s', st') \<Longrightarrow> apart st s t \<Longrightarrow> rd st' t = rd st t"
  by (auto simp: append_go_def Let_def rd_def apart_def disjoint_def split: if_splits)

lemma append_go_apart:
  assumes "append_go g z (reslice0 d) xs st = (d', st')" and "apart st d s"
  shows "apart st' d' s"
  using assms
  by (auto simp: append_go_def Let_def apart_def disjoint_def reslice0_def split: if_splits)

lemma append_go_apart_other:
  assumes "append_go g z (reslice0 d) xs st = (d', st')" and "apart st e s"
  shows "apart st' e s"
  using assms
  by (auto simp: append_go_def Let_def apart_def split: if_splits)

lemma append_go_fresh:
  assumes "append_go g z (reslice0 d) xs st = (d', st')"
    and "s_arr d < nxt st" and "s_arr e < nxt st"
    and "disjoint (s_arr d) (s_off d) (s_cap d) (s_arr e) (s_off e) (s_cap e)"
  shows "s_arr d' < nxt st' \<and> s_arr e < nxt st'
     \<and> disjoint (s_arr d') (s_off d') (s_cap d') (s_arr e) (s_off e) (s_cap e)
     \<and> disjoint (s_arr e) (s_off e) (s_cap e) (s_arr d') (s_off d') (s_len d')"
  using assms
  by (auto simp: append_go_def Let_def disjoint_def reslice0_def split: if_splits)

subsection \<open>One copy\<close>

lemma Copy_frame:
  assumes own: "owned st dst"
    and sts: "separate st dst (Timestamps a)"
    and svs: "separate st dst (Values a)"
    and cp: "Copy rt a dst st = (dst', st')"
  shows "rd st' (Timestamps dst') = rd st (Timestamps a)"
    and "rd st' (Values dst') = rd st (Values a)"
    and "owned st' dst'"
    and "separate st dst s \<Longrightarrow> separate st' dst' s \<and> rd st' s = rd st s"
proof -
  obtain ts st1 where a1: "append_go (growcap rt) (zero_ts rt) (reslice0 (Timestamps dst))
      (rd st (Timestamps a)) st = (ts, st1)"
    by (cases "append_go (growcap rt) (zero_ts rt) (reslice0 (Timestamps dst))
      (rd st (Timestamps a)) st") blast
  obtain vs st2 where a2: "append_go (growcap rt) (zero_val rt) (reslice0 (Values dst))
      (rd st1 (Values a)) st1 = (vs, st2)"
    by (cases "append_go (growcap rt) (zero_val rt) (reslice0 (Values dst))
      (rd st1 (Values a)) st1") blast
  from cp a1 a2 have d': "dst' = dst\<lparr>Timestamps := ts, Values := vs\<rparr>" and st': "st' = st2"
    by (simp_all add: Copy_def)
  have ts1: "rd st1 ts = rd st (Timestamps a)"
    using append_go_rd [OF a1] by (simp add: rd_reslice0)
  have va1: "rd st1 (Values a) = rd st (Values a)"
    using append_go_frame [OF a1, of "Values a"] svs by (simp add: separate_def apart_reslice0)
  have vs2: "rd st2 vs = rd st (Values a)"
    using append_go_rd [OF a2] va1 by (simp add: rd_reslice0)
  from own have o: "s_arr (Timestamps dst) < nxt st" "s_arr (Values dst) < nxt st"
      "disjoint (s_arr (Timestamps dst)) (s_off (Timestamps dst)) (s_cap (Timestamps dst))
               (s_arr (Values dst)) (s_off (Values dst)) (s_cap (Values dst))"
    by (simp_all add: owned_def)
  from append_go_fresh [OF a1 o]
  have f1: "s_arr ts < nxt st1" "s_arr (Values dst) < nxt st1"
      "disjoint (s_arr ts) (s_off ts) (s_cap ts)
         (s_arr (Values dst)) (s_off (Values dst)) (s_cap (Values dst))"
      "disjoint (s_arr (Values dst)) (s_off (Values dst)) (s_cap (Values dst))
         (s_arr ts) (s_off ts) (s_len ts)"
    by simp_all
  have ap: "apart st1 (Values dst) ts"
    using f1 by (simp add: apart_def)
  have ts2: "rd st2 ts = rd st1 ts"
    using append_go_frame [OF a2, of ts] ap by (simp add: apart_reslice0)
  from f1(3) have f1': "disjoint (s_arr (Values dst)) (s_off (Values dst)) (s_cap (Values dst))
      (s_arr ts) (s_off ts) (s_cap ts)"
    by (simp add: disjoint_sym)
  from append_go_fresh [OF a2 f1(2) f1(1) f1']
  have f2: "s_arr vs < nxt st2" "s_arr ts < nxt st2"
      "disjoint (s_arr vs) (s_off vs) (s_cap vs) (s_arr ts) (s_off ts) (s_cap ts)"
    by simp_all
  show "rd st' (Timestamps dst') = rd st (Timestamps a)"
    using ts2 ts1 by (simp add: d' st')
  show "rd st' (Values dst') = rd st (Values a)"
    using vs2 by (simp add: d' st')
  show "owned st' dst'"
    using f2 by (simp add: owned_def d' st' disjoint_sym)
  show "separate st' dst' s \<and> rd st' s = rd st s" if s: "separate st dst s"
  proof -
    from s have s0: "apart st (Timestamps dst) s" "apart st (Values dst) s"
      by (simp_all add: separate_def)
    have "apart st1 ts s" by (rule append_go_apart [OF a1 s0(1)])
    then have t: "apart st2 ts s" by (rule append_go_apart_other [OF a2])
    have "apart st1 (Values dst) s" by (rule append_go_apart_other [OF a1 s0(2)])
    then have v: "apart st2 vs s" and r2: "rd st2 s = rd st1 s"
      using append_go_apart [OF a2] append_go_frame [OF a2, of s]
      by (simp_all add: apart_reslice0)
    have r1: "rd st1 s = rd st s"
      using append_go_frame [OF a1, of s] s0(1) by (simp add: apart_reslice0)
    show ?thesis using t v r1 r2 by (simp add: separate_def d' st')
  qed
qed

lemma Copy_lengths:
  assumes "Copy rt a dst st = (dst', st')"
  shows "s_len (Timestamps dst') = s_len (Timestamps a)"
    and "s_len (Values dst') = s_len (Values a)"
  using assms
  by (auto simp: Copy_def reslice0_def length_rd split: prod.splits dest!: append_go_len)

subsection \<open>Three copies\<close>

text \<open>
  Claim C7, as the code has it: for every source and every destination whose backing
  storage is its own (its two fields allocated, their capacities overlapping neither each
  other nor any cell a source shows), pre-populated or not and of any prior length: after
  \<^verbatim>\<open>Copy\<close> the destination's timestamps and values are the source's, and the source
  reads as before; and after three copies into the one destination, from sources of any
  lengths (so also of lengths N1, N2 < N1, N3 > N2), the destination holds exactly the
  third source's elements, its length is the third source's, and all three sources read as
  before.
\<close>

theorem Copy_into_separate_destination:
  assumes own: "owned st dst"
    and s1: "separate st dst (Timestamps a1)" "separate st dst (Values a1)"
    and s2: "separate st dst (Timestamps a2)" "separate st dst (Values a2)"
    and s3: "separate st dst (Timestamps a3)" "separate st dst (Values a3)"
  shows "(case Copy rt a1 dst st of
            (d1, st1) \<Rightarrow>
              rd st1 (Timestamps d1) = rd st (Timestamps a1)
              \<and> rd st1 (Values d1) = rd st (Values a1)
              \<and> rd st1 (Timestamps a1) = rd st (Timestamps a1)
              \<and> rd st1 (Values a1) = rd st (Values a1))
     \<and> (case copy_thrice rt a1 a2 a3 dst st of
            (d3, st3) \<Rightarrow>
              rd st3 (Timestamps d3) = rd st (Timestamps a3)
              \<and> rd st3 (Values d3) = rd st (Values a3)
              \<and> length (rd st3 (Timestamps d3)) = s_len (Timestamps a3)
              \<and> length (rd st3 (Values d3)) = s_len (Values a3)
              \<and> rd st3 (Timestamps a1) = rd st (Timestamps a1)
              \<and> rd st3 (Values a1) = rd st (Values a1)
              \<and> rd st3 (Timestamps a2) = rd st (Timestamps a2)
              \<and> rd st3 (Values a2) = rd st (Values a2)
              \<and> rd st3 (Timestamps a3) = rd st (Timestamps a3)
              \<and> rd st3 (Values a3) = rd st (Values a3))"
proof -
  obtain d1 st1 where c1: "Copy rt a1 dst st = (d1, st1)"
    by (cases "Copy rt a1 dst st") blast
  obtain d2 st2 where c2: "Copy rt a2 d1 st1 = (d2, st2)"
    by (cases "Copy rt a2 d1 st1") blast
  obtain d3 st3 where c3: "Copy rt a3 d2 st2 = (d3, st3)"
    by (cases "Copy rt a3 d2 st2") blast
  note f1 = Copy_frame [OF own s1 c1]
  have k1: "separate st1 d1 s \<and> rd st1 s = rd st s" if "separate st dst s" for s
    using f1(4) that by blast
  note f2 = Copy_frame [OF f1(3) k1 [OF s2(1), THEN conjunct1] k1 [OF s2(2), THEN conjunct1] c2]
  have k2: "separate st2 d2 s \<and> rd st2 s = rd st s" if "separate st dst s" for s
    using f2(4) [of s] k1 [OF that] by simp
  note f3 = Copy_frame [OF f2(3) k2 [OF s3(1), THEN conjunct1] k2 [OF s3(2), THEN conjunct1] c3]
  have k3: "rd st3 s = rd st s" if "separate st dst s" for s
    using f3(4) [of s] k2 [OF that] by simp
  have one: "rd st1 (Timestamps d1) = rd st (Timestamps a1)
       \<and> rd st1 (Values d1) = rd st (Values a1)
       \<and> rd st1 (Timestamps a1) = rd st (Timestamps a1)
       \<and> rd st1 (Values a1) = rd st (Values a1)"
    using f1(1,2) k1 [OF s1(1)] k1 [OF s1(2)] by simp
  have t3: "rd st3 (Timestamps d3) = rd st (Timestamps a3)"
    using f3(1) k2 [OF s3(1)] by simp
  have v3: "rd st3 (Values d3) = rd st (Values a3)"
    using f3(2) k2 [OF s3(2)] by simp
  have three: "rd st3 (Timestamps d3) = rd st (Timestamps a3)
       \<and> rd st3 (Values d3) = rd st (Values a3)
       \<and> length (rd st3 (Timestamps d3)) = s_len (Timestamps a3)
       \<and> length (rd st3 (Values d3)) = s_len (Values a3)
       \<and> rd st3 (Timestamps a1) = rd st (Timestamps a1)
       \<and> rd st3 (Values a1) = rd st (Values a1)
       \<and> rd st3 (Timestamps a2) = rd st (Timestamps a2)
       \<and> rd st3 (Values a2) = rd st (Values a2)
       \<and> rd st3 (Timestamps a3) = rd st (Timestamps a3)
       \<and> rd st3 (Values a3) = rd st (Values a3)"
    using t3 v3 k3 [OF s1(1)] k3 [OF s1(2)] k3 [OF s2(1)] k3 [OF s2(2)] k3 [OF s3(1)]
      k3 [OF s3(2)]
    by (simp add: length_rd)
  have ct: "copy_thrice rt a1 a2 a3 dst st = (d3, st3)"
    using c1 c2 c3 by (simp add: copy_thrice_def)
  from one three show ?thesis by (simp add: c1 ct length_rd)
qed

theorem Copy_into_separate_destination_witness:
  "owned demo_store full_dst
   \<and> separate demo_store full_dst (Timestamps src3) \<and> separate demo_store full_dst (Values src3)
   \<and> separate demo_store full_dst (Timestamps src1) \<and> separate demo_store full_dst (Values src1)
   \<and> separate demo_store full_dst (Timestamps src2) \<and> separate demo_store full_dst (Values src2)
   \<and> rd demo_store (Timestamps full_dst) = [91, 92]
   \<and> rd demo_store (Values full_dst) = [93, 94]
   \<and> s_len (Timestamps src3) = 3 \<and> s_len (Timestamps src1) = 1 \<and> s_len (Timestamps src2) = 2
   \<and> rd (snd (copy_thrice demo_runtime src3 src1 src2 full_dst demo_store))
        (Timestamps (fst (copy_thrice demo_runtime src3 src1 src2 full_dst demo_store)))
       = [15, 16]
   \<and> rd (snd (copy_thrice demo_runtime src3 src1 src2 full_dst demo_store))
        (Values (fst (copy_thrice demo_runtime src3 src1 src2 full_dst demo_store)))
       = [25, 26]
   \<and> rd (snd (copy_thrice demo_runtime src3 src1 src2 full_dst demo_store)) (Timestamps src3)
       = [11, 12, 13]"
proof -
  have own: "owned demo_store full_dst"
    by (simp add: owned_def disjoint_def demo_heap src1_def src2_def src3_def full_dst_def)
  have sep: "separate demo_store full_dst (Timestamps src3)"
      "separate demo_store full_dst (Values src3)"
      "separate demo_store full_dst (Timestamps src1)"
      "separate demo_store full_dst (Values src1)"
      "separate demo_store full_dst (Timestamps src2)"
      "separate demo_store full_dst (Values src2)"
    by (simp_all add: separate_def apart_def disjoint_def demo_heap src1_def src2_def src3_def full_dst_def)
  have r: "rd demo_store (Timestamps src2) = [15, 16]"
      "rd demo_store (Values src2) = [25, 26]"
      "rd demo_store (Timestamps src3) = [11, 12, 13]"
      "rd demo_store (Timestamps full_dst) = [91, 92]"
      "rd demo_store (Values full_dst) = [93, 94]"
    by (simp_all add: rd_def demo_heap src1_def src2_def src3_def full_dst_def upt_rec)
  have l: "s_len (Timestamps src3) = 3" "s_len (Timestamps src1) = 1"
      "s_len (Timestamps src2) = 2"
    by (simp_all add: demo_heap src1_def src2_def src3_def full_dst_def)
  from Copy_into_separate_destination [OF own sep, of demo_runtime] r
  have "rd (snd (copy_thrice demo_runtime src3 src1 src2 full_dst demo_store))
        (Timestamps (fst (copy_thrice demo_runtime src3 src1 src2 full_dst demo_store)))
       = [15, 16]
   \<and> rd (snd (copy_thrice demo_runtime src3 src1 src2 full_dst demo_store))
        (Values (fst (copy_thrice demo_runtime src3 src1 src2 full_dst demo_store)))
       = [25, 26]
   \<and> rd (snd (copy_thrice demo_runtime src3 src1 src2 full_dst demo_store)) (Timestamps src3)
       = [11, 12, 13]"
    by (simp add: case_prod_beta)
  with own sep r l show ?thesis by simp
qed

text \<open>
  The claim as it was stated is for every destination. Here the destination's timestamps
  begin one cell into the source's own array, which has a cell to spare: the append
  finds room, moves the source's two timestamps one cell up, and the source, still
  looking at cells 0 and 1, reads \<open>[10, 10]\<close> where it read \<open>[10, 20]\<close>; the
  destination reads \<open>[10, 20]\<close>.
\<close>

lemmas copy_defs = Copy_def append_go_def rd_def reslice0_def Let_def

theorem Copy_overlapping_destination:
  "rd demo_store (Timestamps alias_src) = [10, 20]
   \<and> rd (snd (Copy demo_runtime alias_src alias_dst demo_store)) (Timestamps alias_src)
       = [10, 10]
   \<and> rd (snd (Copy demo_runtime alias_src alias_dst demo_store))
        (Timestamps (fst (Copy demo_runtime alias_src alias_dst demo_store)))
       = [10, 20]"
  by (simp add: copy_defs demo_heap alias_src_def alias_dst_def upt_rec)


subsection \<open>Lengths\<close>

lemma make_go_rd:
  "0 \<le> sz \<Longrightarrow> make_go z sz st = Inr (s, st') \<Longrightarrow>
     rd st' s = replicate (nat sz) z \<and> s_arr s = nxt st \<and> nxt st' = nxt st + 1
     \<and> (\<forall>t. s_arr t < nxt st \<longrightarrow> rd st' t = rd st t)"
  by (auto simp: make_go_def rd_def map_replicate_const split: if_splits)

text \<open>
  Claim C8: timestamps and values stay equally long. \<open>newArrayLen\<close> with a size that is
  not negative returns an array whose two sequences have exactly that length (zeros
  throughout); with a negative size \<^verbatim>\<open>make\<close> panics and there is no array. \<open>Encode\<close>
  is the encoder's answer and touches neither array nor store. After \<open>Copy\<close>, into any
  destination whatever, the destination's two lengths are the source's two lengths and the
  source's are what they were; so equal lengths in the source give equal lengths in both.
\<close>

theorem lengths_stay_equal:
  "(0 \<le> sz \<longrightarrow>
      (\<exists>a st'. newArrayLen rt sz st = Inr (a, st')
         \<and> rd st' (Timestamps a) = replicate (nat sz) (zero_ts rt)
         \<and> rd st' (Values a) = replicate (nat sz) (zero_val rt)
         \<and> length (rd st' (Timestamps a)) = nat sz
         \<and> length (rd st' (Values a)) = nat sz))
   \<and> (sz < 0 \<longrightarrow> newArrayLen rt sz st = Inl MakesliceLenOutOfRange)
   \<and> Encode enc a b st = enc a st b
   \<and> (case Copy rt a dst st of
         (dst', st') \<Rightarrow>
           length (rd st' (Timestamps dst')) = length (rd st (Timestamps a))
           \<and> length (rd st' (Values dst')) = length (rd st (Values a))
           \<and> length (rd st' (Timestamps a)) = length (rd st (Timestamps a))
           \<and> length (rd st' (Values a)) = length (rd st (Values a))
           \<and> (length (rd st (Timestamps a)) = length (rd st (Values a)) \<longrightarrow>
                length (rd st' (Timestamps dst')) = length (rd st' (Values dst'))
                \<and> length (rd st' (Timestamps a)) = length (rd st' (Values a))))"
proof (intro conjI impI)
  assume sz: "0 \<le> sz"
  obtain ts st1 where m1: "make_go (zero_ts rt) sz st = Inr (ts, st1)"
    using sz by (simp add: make_go_def)
  obtain vs st2 where m2: "make_go (zero_val rt) sz st1 = Inr (vs, st2)"
    using sz by (simp add: make_go_def)
  from make_go_rd [OF sz m1] have r1: "rd st1 ts = replicate (nat sz) (zero_ts rt)"
    and a1: "s_arr ts < nxt st1" by simp_all
  from make_go_rd [OF sz m2] a1 have r2: "rd st2 vs = replicate (nat sz) (zero_val rt)"
    and k: "rd st2 ts = rd st1 ts" by simp_all
  have n: "newArrayLen rt sz st = Inr (\<lparr>Timestamps = ts, Values = vs\<rparr>, st2)"
    using m1 m2 by (simp add: newArrayLen_def)
  show "\<exists>a st'. newArrayLen rt sz st = Inr (a, st')
         \<and> rd st' (Timestamps a) = replicate (nat sz) (zero_ts rt)
         \<and> rd st' (Values a) = replicate (nat sz) (zero_val rt)
         \<and> length (rd st' (Timestamps a)) = nat sz
         \<and> length (rd st' (Values a)) = nat sz"
    using n r1 r2 k by simp
next
  assume "sz < 0"
  then show "newArrayLen rt sz st = Inl MakesliceLenOutOfRange"
    by (simp add: newArrayLen_def make_go_def)
next
  show "Encode enc a b st = enc a st b"
    by (simp add: Encode_def)
next
  obtain dst' st' where c: "Copy rt a dst st = (dst', st')"
    by (cases "Copy rt a dst st") blast
  from Copy_lengths [OF c]
  show "case Copy rt a dst st of
         (dst', st') \<Rightarrow>
           length (rd st' (Timestamps dst')) = length (rd st (Timestamps a))
           \<and> length (rd st' (Values dst')) = length (rd st (Values a))
           \<and> length (rd st' (Timestamps a)) = length (rd st (Timestamps a))
           \<and> length (rd st' (Values a)) = length (rd st (Values a))
           \<and> (length (rd st (Timestamps a)) = length (rd st (Values a)) \<longrightarrow>
                length (rd st' (Timestamps dst')) = length (rd st' (Values dst'))
                \<and> length (rd st' (Timestamps a)) = length (rd st' (Values a)))"
    by (simp add: c length_rd)
qed


theorem lengths_stay_equal_witness:
  "(0::int) \<le> 3
   \<and> (\<exists>a st'. newArrayLen demo_runtime 3 demo_store = Inr (a, st')
         \<and> length (rd st' (Timestamps a)) = 3 \<and> length (rd st' (Values a)) = 3)
   \<and> (-1::int) < 0
   \<and> newArrayLen demo_runtime (-1) demo_store = Inl MakesliceLenOutOfRange
   \<and> length (rd demo_store (Timestamps src3)) = length (rd demo_store (Values src3))
   \<and> length (rd (snd (Copy demo_runtime src3 full_dst demo_store))
               (Timestamps (fst (Copy demo_runtime src3 full_dst demo_store)))) = 3
   \<and> length (rd (snd (Copy demo_runtime src3 full_dst demo_store))
               (Values (fst (Copy demo_runtime src3 full_dst demo_store)))) = 3"
proof -
  have e: "length (rd demo_store (Timestamps src3)) = 3"
      "length (rd demo_store (Values src3)) = 3"
    by (simp_all add: rd_def demo_heap src3_def full_dst_def)
  note t = lengths_stay_equal [where rt = demo_runtime and st = demo_store and a = src3
      and dst = full_dst and b = "[]"
      and enc = "\<lambda>a st b. (Inr b :: unit + 8 word list)"]
  from t [where sz = 3]
  have a: "\<exists>a st'. newArrayLen demo_runtime 3 demo_store = Inr (a, st')
         \<and> length (rd st' (Timestamps a)) = 3 \<and> length (rd st' (Values a)) = 3"
    by auto
  from t [where sz = "-1"]
  have b: "newArrayLen demo_runtime (-1) demo_store = Inl MakesliceLenOutOfRange"
    by simp
  from t [where sz = 0] e
  have c: "length (rd (snd (Copy demo_runtime src3 full_dst demo_store))
               (Timestamps (fst (Copy demo_runtime src3 full_dst demo_store)))) = 3
   \<and> length (rd (snd (Copy demo_runtime src3 full_dst demo_store))
               (Values (fst (Copy demo_runtime src3 full_dst demo_store)))) = 3"
    by (simp add: case_prod_beta)
  from a b c e show ?thesis by simp
qed


end
